theory Spec2Isabelle
  imports Main
begin

section \<open>JSON payloads\<close>

text \<open>
  Content payloads, CMS entities and operation results are duck-typed JavaScript values
  that travel as JSON. An object is the list of its own properties in the order in which
  they were added; the order in which JavaScript enumerates them is \<open>js_order\<close> below.
  \<open>JNum n\<close> is the number \<open>n\<close>, for the integers that a JavaScript number holds exactly
  and prints in full (\<^verbatim>\<open>Number.isSafeInteger\<close>: ids, versions, counts and timestamps);
  fractions, \<^verbatim>\<open>NaN\<close> and the infinities are not represented. \<open>JNull\<close> stands for both
  \<^verbatim>\<open>null\<close> and \<^verbatim>\<open>undefined\<close> where a whole value is concerned; a missing property is
  \<open>None\<close>.
\<close>

datatype json =
    JNull
  | JBool bool
  | JNum int
  | JStr string
  | JArr "json list"
  | JObj "(string \<times> json) list"

text \<open>JavaScript truthiness, as used by \<^verbatim>\<open>!x\<close>, \<^verbatim>\<open>x || y\<close> and \<^verbatim>\<open>x && y\<close>.\<close>

fun truthy :: "json \<Rightarrow> bool" where
  "truthy JNull = False"
| "truthy (JBool b) = b"
| "truthy (JNum n) = (n \<noteq> 0)"
| "truthy (JStr s) = (s \<noteq> [])"
| "truthy (JArr xs) = True"
| "truthy (JObj kvs) = True"

section \<open>JavaScript views of a JSON value\<close>

fun show_nat :: "nat \<Rightarrow> string" where
  "show_nat n =
     (if n < 10 then [''0123456789'' ! n]
      else show_nat (n div 10) @ [''0123456789'' ! (n mod 10)])"

declare show_nat.simps [simp del]

definition show_int :: "int \<Rightarrow> string" where
  "show_int i = (if i < 0 then ''-'' @ show_nat (nat (- i)) else show_nat (nat i))"

text \<open>
  Property order. JavaScript enumerates the own string keys of an object with the array
  indices first, in ascending numeric order, and the other keys after them in the order in
  which they were added. An array index is the canonical decimal form of an integer from
  0 to \<open>2\<^sup>3\<^sup>2 - 2\<close>: digits only and no leading zero.
\<close>

definition is_digit :: "char \<Rightarrow> bool" where
  "is_digit c = (c \<in> set ''0123456789'')"

definition dec_value :: "string \<Rightarrow> nat" where
  "dec_value s = foldl (\<lambda>n c. 10 * n + (of_char c - 48)) 0 s"

definition is_array_index :: "string \<Rightarrow> bool" where
  "is_array_index k =
     (k \<noteq> [] \<and> list_all is_digit k \<and> (k = ''0'' \<or> hd k \<noteq> CHR ''0'')
      \<and> dec_value k < 4294967295)"

definition js_order :: "(string \<times> 'a) list \<Rightarrow> (string \<times> 'a) list" where
  "js_order kvs =
     sort_key (\<lambda>kv. dec_value (fst kv)) (filter (\<lambda>kv. is_array_index (fst kv)) kvs)
     @ filter (\<lambda>kv. \<not> is_array_index (fst kv)) kvs"

text \<open>
  The own enumerable properties of a value, as \<^verbatim>\<open>Object.keys\<close>, \<^verbatim>\<open>Object.entries\<close>,
  \<^verbatim>\<open>for..in\<close> and the spread \<^verbatim>\<open>{...v}\<close> see them: the entries of an object in
  enumeration order, the indexed elements of an array, the indexed characters of a string,
  nothing for the other primitives and for null.
\<close>

fun own_props :: "json \<Rightarrow> (string \<times> json) list" where
  "own_props (JObj kvs) = js_order kvs"
| "own_props (JArr xs) = zip (map show_nat [0..<length xs]) xs"
| "own_props (JStr s) = zip (map show_nat [0..<length s]) (map (\<lambda>c. JStr [c]) s)"
| "own_props v = []"

definition object_keys :: "json \<Rightarrow> string list" where
  "object_keys v = map fst (own_props v)"

text \<open>\<^verbatim>\<open>v[k]\<close> and \<^verbatim>\<open>v?.k\<close> for the property names the plugin reads; \<open>None\<close> is
  \<^verbatim>\<open>undefined\<close>.\<close>

definition get_prop :: "json \<Rightarrow> string \<Rightarrow> json option" where
  "get_prop v k = map_of (own_props v) k"

text \<open>\<^verbatim>\<open>x || d\<close> where \<open>x\<close> is a property that may be missing.\<close>

definition or_else :: "json option \<Rightarrow> json \<Rightarrow> json" where
  "or_else x d = (case x of None \<Rightarrow> d | Some v \<Rightarrow> if truthy v then v else d)"

text \<open>\<^verbatim>\<open>{...obj, k: v}\<close>: an existing key keeps its position, a new one goes last.\<close>

fun obj_set :: "(string \<times> json) list \<Rightarrow> string \<Rightarrow> json \<Rightarrow> (string \<times> json) list" where
  "obj_set [] k v = [(k, v)]"
| "obj_set (p # ps) k v = (if fst p = k then (k, v) # ps else p # obj_set ps k v)"

text \<open>
  \<^verbatim>\<open>obj[key] = value\<close> on an object that was created as \<^verbatim>\<open>{}\<close>. The key
  \<^verbatim>\<open>__proto__\<close> is the accessor inherited from \<^verbatim>\<open>Object.prototype\<close>: assigning to it
  never creates an own property (it replaces the prototype when the value is an object or
  null, and does nothing otherwise). Only own properties are kept here, which is what
  \<^verbatim>\<open>Object.entries\<close>, the spread and \<^verbatim>\<open>JSON.stringify\<close> read of the result.
  \<open>assign_all\<close> is the loop \<^verbatim>\<open>for (const [key, value] of entries) obj[key] = value\<close>.
\<close>

definition assign :: "(string \<times> json) list \<Rightarrow> string \<times> json \<Rightarrow> (string \<times> json) list" where
  "assign obj kv = (if fst kv = ''__proto__'' then obj else obj_set obj (fst kv) (snd kv))"

definition assign_all :: "(string \<times> json) list \<Rightarrow> (string \<times> json) list" where
  "assign_all entries = foldl assign [] entries"

text \<open>
  \<^verbatim>\<open>a === b\<close>. Primitives compare by value. Arrays and objects compare by reference, and
  two values that come from different sources (a stored row and a wire message) are never
  the same reference.
\<close>

fun strict_eq :: "json \<Rightarrow> json \<Rightarrow> bool" where
  "strict_eq JNull JNull = True"
| "strict_eq (JBool a) (JBool b) = (a = b)"
| "strict_eq (JNum a) (JNum b) = (a = b)"
| "strict_eq (JStr a) (JStr b) = (a = b)"
| "strict_eq a b = False"

subsection \<open>JSON.stringify\<close>

definition hex_digit :: "nat \<Rightarrow> char" where
  "hex_digit n = ''0123456789abcdef'' ! (n mod 16)"

definition escape_char :: "char \<Rightarrow> string" where
  "escape_char c =
     (if c = CHR 0x22 then [CHR 0x5C, CHR 0x22]
      else if c = CHR 0x5C then [CHR 0x5C, CHR 0x5C]
      else if c = CHR 0x08 then [CHR 0x5C, CHR ''b'']
      else if c = CHR 0x09 then [CHR 0x5C, CHR ''t'']
      else if c = CHR 0x0A then [CHR 0x5C, CHR ''n'']
      else if c = CHR 0x0C then [CHR 0x5C, CHR ''f'']
      else if c = CHR 0x0D then [CHR 0x5C, CHR ''r'']
      else if of_char c < (32 :: nat)
        then [CHR 0x5C, CHR ''u'', CHR ''0'', CHR ''0'',
              hex_digit (of_char c div 16), hex_digit (of_char c)]
      else [c])"

definition quote :: "string \<Rightarrow> string" where
  "quote s = [CHR 0x22] @ concat (map escape_char s) @ [CHR 0x22]"

fun join :: "string \<Rightarrow> string list \<Rightarrow> string" where
  "join sep [] = []"
| "join sep [x] = x"
| "join sep (x # y # ys) = x @ sep @ join sep (y # ys)"

fun stringify :: "json \<Rightarrow> string" where
  "stringify JNull = ''null''"
| "stringify (JBool b) = (if b then ''true'' else ''false'')"
| "stringify (JNum n) = show_int n"
| "stringify (JStr s) = quote s"
| "stringify (JArr xs) = ''['' @ join '','' (map stringify xs) @ '']''"
| "stringify (JObj kvs) =
     ''{'' @ join '',''
              (map (\<lambda>kv. quote (fst kv) @ '':'' @ snd kv)
                 (js_order (map (\<lambda>kv. (fst kv, stringify (snd kv))) kvs)))
     @ ''}''"

section \<open>Version tracker: conflict detection (version-tracker.ts)\<close>

datatype conflict_kind = Direct | Indirect | Structural

record conflict_result =
  hasConflict :: bool
  conflictingFields :: "string list option"
  conflictType :: "conflict_kind option"

definition no_conflict :: conflict_result where
  "no_conflict = \<lparr>hasConflict = False, conflictingFields = None, conflictType = None\<rparr>"

definition excludeFields :: "string list" where
  "excludeFields =
     [''id'', ''createdAt'', ''updatedAt'', ''publishedAt'', ''syncVersion'', ''lastSyncedAt'',
      ''modifiedByLocation'', ''syncStatus'', ''conflictFlag'']"

text \<open>\<^verbatim>\<open>x.syncVersion || 0\<close> and \<^verbatim>\<open>x.data || x\<close>.\<close>

definition version_of :: "json \<Rightarrow> json" where
  "version_of x = or_else (get_prop x ''syncVersion'') (JNum 0)"

definition data_of :: "json \<Rightarrow> json" where
  "data_of x = or_else (get_prop x ''data'') x"

definition data_keys :: "json \<Rightarrow> string list" where
  "data_keys d = filter (\<lambda>key. key \<notin> set excludeFields) (object_keys d)"

text \<open>\<^verbatim>\<open>JSON.stringify(d[key])\<close>; \<open>None\<close> is the \<^verbatim>\<open>undefined\<close> it gives for a missing
  property.\<close>

definition stringified :: "json \<Rightarrow> string \<Rightarrow> string option" where
  "stringified d key = map_option stringify (get_prop d key)"

definition changedFields :: "json \<Rightarrow> json \<Rightarrow> string list" where
  "changedFields localData remoteData =
     filter (\<lambda>key. key \<in> set (data_keys remoteData)
                  \<and> stringified localData key \<noteq> stringified remoteData key)
       (data_keys localData)"

definition onlyIn :: "json \<Rightarrow> json \<Rightarrow> string list" where
  "onlyIn a b = filter (\<lambda>k. k \<notin> set (data_keys b)) (data_keys a)"

definition detectConflict :: "json \<Rightarrow> json \<Rightarrow> conflict_result" where
  "detectConflict local remote =
     (if \<not> truthy local \<or> \<not> truthy remote then no_conflict
      else if strict_eq (version_of local) (version_of remote) then no_conflict
      else
        let localData = data_of local;
            remoteData = data_of remote;
            onlyInLocal = onlyIn localData remoteData;
            onlyInRemote = onlyIn remoteData localData;
            fields = changedFields localData remoteData
                     @ (if onlyInLocal \<noteq> [] \<or> onlyInRemote \<noteq> []
                        then onlyInLocal @ onlyInRemote else [])
        in if fields \<noteq> []
           then \<lparr>hasConflict = True, conflictingFields = Some fields,
                 conflictType = Some Direct\<rparr>
           else no_conflict)"

section \<open>Sensitive-field redaction (bootstrap.ts)\<close>

definition SENSITIVE_FIELDS :: "string list" where
  "SENSITIVE_FIELDS =
     [''password'', ''resetPasswordToken'', ''confirmationToken'', ''registrationToken'',
      ''token'', ''secret'', ''apiKey'']"

text \<open>\<^verbatim>\<open>typeof value === 'object' && value !== null\<close>: arrays and objects.\<close>

fun is_object :: "json \<Rightarrow> bool" where
  "is_object (JArr xs) = True"
| "is_object (JObj kvs) = True"
| "is_object v = False"

text \<open>
  \<open>stripSensitiveData\<close>. The entries are visited in enumeration order and each is
  assigned to a fresh object; the value of an entry does not change its key, so the order
  is applied to the rewritten entries.
\<close>

fun stripSensitiveData :: "json \<Rightarrow> json" where
  "stripSensitiveData (JArr xs) = JArr (map stripSensitiveData xs)"
| "stripSensitiveData (JObj kvs) =
     JObj (assign_all (js_order (map (\<lambda>kv.
        if fst kv \<in> set SENSITIVE_FIELDS then (fst kv, JStr ''[REDACTED]'')
        else if is_object (snd kv) then (fst kv, stripSensitiveData (snd kv))
        else (fst kv, snd kv)) kvs)))"
| "stripSensitiveData v = v"

text \<open>A payload mentions a sensitive field when some object in it, at any depth, has a
  sensitive key.\<close>

fun has_sensitive_key :: "json \<Rightarrow> bool" where
  "has_sensitive_key (JArr xs) = list_ex has_sensitive_key xs"
| "has_sensitive_key (JObj kvs) =
     list_ex (\<lambda>kv. fst kv \<in> set SENSITIVE_FIELDS \<or> has_sensitive_key (snd kv)) kvs"
| "has_sensitive_key v = False"

section \<open>Media sync: URL rewriting (media-sync service)\<close>

text \<open>\<^verbatim>\<open>s.startsWith(p)\<close> and \<^verbatim>\<open>s.includes(p)\<close>.\<close>

definition starts_with :: "string \<Rightarrow> string \<Rightarrow> bool" where
  "starts_with s p = (take (length p) s = p)"

fun str_includes :: "string \<Rightarrow> string \<Rightarrow> bool" where
  "str_includes [] p = (p = [])"
| "str_includes (c # cs) p = (starts_with (c # cs) p \<or> str_includes cs p)"

text \<open>
  The replacement text of \<^verbatim>\<open>String.prototype.replace\<close> is a template: \<^verbatim>\<open>$$\<close> is a
  dollar sign, \<^verbatim>\<open>$&\<close> the matched text, \<^verbatim>\<open>$`\<close> the text before the match and
  \<^verbatim>\<open>$'\<close> the text after it. The pattern built by \<^verbatim>\<open>escapeRegex\<close> has no capture
  group, so \<^verbatim>\<open>$1\<close> and \<^verbatim>\<open>$<name>\<close> stay as they are.
\<close>

fun get_substitution :: "string \<Rightarrow> string \<Rightarrow> string \<Rightarrow> string \<Rightarrow> string" where
  "get_substitution matched preceding following [] = []"
| "get_substitution matched preceding following [c] = [c]"
| "get_substitution matched preceding following (c # d # ds) =
     (if c = CHR 0x24 then
        (if d = CHR 0x24 then CHR 0x24 # get_substitution matched preceding following ds
         else if d = CHR 0x26 then matched @ get_substitution matched preceding following ds
         else if d = CHR 0x60 then preceding @ get_substitution matched preceding following ds
         else if d = CHR 0x27 then following @ get_substitution matched preceding following ds
         else c # get_substitution matched preceding following (d # ds))
      else c # get_substitution matched preceding following (d # ds))"

text \<open>
  \<^verbatim>\<open>s.replace(new RegExp(escapeRegex(p), 'g'), t)\<close>. \<^verbatim>\<open>escapeRegex\<close> escapes every regular
  expression metacharacter, so the pattern matches the text \<open>p\<close> itself; the global flag
  replaces every match found scanning from the left, each scan resuming after the previous
  match. \<open>pre\<close> is the part of the subject already scanned. An empty pattern matches
  before every character and at the end.
\<close>

fun replace_from :: "string \<Rightarrow> string \<Rightarrow> string \<Rightarrow> string \<Rightarrow> string" where
  "replace_from p t pre [] = []"
| "replace_from p t pre (c # cs) =
     (if p \<noteq> [] \<and> starts_with (c # cs) p
      then get_substitution p pre (drop (length p - 1) cs) t
           @ replace_from p t (pre @ p) (drop (length p - 1) cs)
      else c # replace_from p t (pre @ [c]) cs)"

fun replace_empty :: "string \<Rightarrow> string \<Rightarrow> string \<Rightarrow> string" where
  "replace_empty t pre [] = get_substitution [] pre [] t"
| "replace_empty t pre (c # cs) =
     get_substitution [] pre (c # cs) t @ c # replace_empty t (pre @ [c]) cs"

definition replace_all :: "string \<Rightarrow> string \<Rightarrow> string \<Rightarrow> string" where
  "replace_all s p t = (if p = [] then replace_empty t [] s else replace_from p t [] s)"

text \<open>\<open>transformUrls\<close>; \<open>mediaFields\<close> is passed along and never read. The entries of
  an object are visited in enumeration order and assigned to a fresh object.\<close>

fun transformUrls :: "json \<Rightarrow> string \<Rightarrow> string \<Rightarrow> string list \<Rightarrow> nat \<Rightarrow> json" where
  "transformUrls JNull fromBaseUrl toBaseUrl mediaFields depth = JNull"
| "transformUrls (JStr s) fromBaseUrl toBaseUrl mediaFields depth =
     (if depth > 20 then JStr s
      else if str_includes s fromBaseUrl then JStr (replace_all s fromBaseUrl toBaseUrl)
      else JStr s)"
| "transformUrls (JArr xs) fromBaseUrl toBaseUrl mediaFields depth =
     (if depth > 20 then JArr xs
      else JArr (map (\<lambda>item. transformUrls item fromBaseUrl toBaseUrl mediaFields (depth + 1))
                  xs))"
| "transformUrls (JObj kvs) fromBaseUrl toBaseUrl mediaFields depth =
     (if depth > 20 then JObj kvs
      else JObj (assign_all (js_order
                  (map (\<lambda>kv. (fst kv,
                          transformUrls (snd kv) fromBaseUrl toBaseUrl mediaFields (depth + 1)))
                     kvs))))"
| "transformUrls data fromBaseUrl toBaseUrl mediaFields depth = data"

text \<open>
  The payloads of the round trip: every string is either a URL under the base \<open>A\<close>
  (\<open>A\<close> followed by a remainder that mentions neither base) or mentions neither base.
\<close>

definition url_under :: "string \<Rightarrow> string \<Rightarrow> string \<Rightarrow> bool" where
  "url_under A B s =
     (starts_with s A \<and> \<not> str_includes (drop (length A) s) A \<and> \<not> str_includes (drop (length A) s) B)"

definition mentions_neither :: "string \<Rightarrow> string \<Rightarrow> string \<Rightarrow> bool" where
  "mentions_neither A B s = (\<not> str_includes s A \<and> \<not> str_includes s B)"

fun only_urls_under :: "string \<Rightarrow> string \<Rightarrow> json \<Rightarrow> bool" where
  "only_urls_under A B (JStr s) = (url_under A B s \<or> mentions_neither A B s)"
| "only_urls_under A B (JArr xs) = list_all (only_urls_under A B) xs"
| "only_urls_under A B (JObj kvs) = list_all (\<lambda>kv. only_urls_under A B (snd kv)) kvs"
| "only_urls_under A B v = True"

text \<open>
  Equality of payloads is equality of the lists of properties, so the round trip is stated
  for payloads in canonical form: every object lists each key once and in enumeration
  order. Every JavaScript object has exactly one such form.
\<close>

fun canonical :: "json \<Rightarrow> bool" where
  "canonical (JArr xs) = list_all canonical xs"
| "canonical (JObj kvs) =
     (distinct (map fst kvs) \<and> js_order kvs = kvs \<and> list_all (\<lambda>kv. canonical (snd kv)) kvs)"
| "canonical v = True"

text \<open>No object of the payload, at any depth, has an own property named
  \<^verbatim>\<open>__proto__\<close>.\<close>

fun no_proto_key :: "json \<Rightarrow> bool" where
  "no_proto_key (JArr xs) = list_all no_proto_key xs"
| "no_proto_key (JObj kvs) =
     (''__proto__'' \<notin> set (map fst kvs) \<and> list_all (\<lambda>kv. no_proto_key (snd kv)) kvs)"
| "no_proto_key v = True"

section \<open>Database tables\<close>

text \<open>
  A table of \<^verbatim>\<open>strapi.db.query\<close> is the list of its rows in insertion order, with the next
  auto-increment id beside it. \<^verbatim>\<open>findOne({where})\<close> is \<^const>\<open>find\<close>: the first row that
  matches. \<^verbatim>\<open>update({where, data})\<close> changes the first row that matches and leaves the
  table alone when none does.
\<close>

fun update_first :: "('r \<Rightarrow> bool) \<Rightarrow> ('r \<Rightarrow> 'r) \<Rightarrow> 'r list \<Rightarrow> 'r list" where
  "update_first P f [] = []"
| "update_first P f (r # rs) = (if P r then f r # rs else r # update_first P f rs)"

text \<open>\<^verbatim>\<open>delete({where})\<close> removes the first row that matches.\<close>

fun delete_first :: "('r \<Rightarrow> bool) \<Rightarrow> 'r list \<Rightarrow> 'r list" where
  "delete_first P [] = []"
| "delete_first P (r # rs) = (if P r then rs else r # delete_first P rs)"

datatype sync_mode = Master | Replica

section \<open>Replica outbound queue (queue-manager.ts)\<close>

datatype queue_status = Q_pending | Q_synced | Q_failed












section \<open>The store of a peer: CMS entities, sync metadata, conflict log\<close>

datatype sync_status = S_pending | S_synced | S_conflict

record metadata_row =
  m_id :: nat
  m_contentType :: string
  m_entityId :: nat
  m_syncVersion :: int
  m_modifiedByLocation :: string
  m_lastSyncedAt :: "nat option"
  m_syncStatus :: sync_status
  m_conflictFlag :: bool

datatype conflict_status = C_pending | C_resolved

record conflict_row =
  c_id :: nat
  c_contentType :: string
  c_entityId :: nat
  c_localData :: json
  c_remoteData :: json
  c_conflictingFields :: "string list"
  c_conflictType :: conflict_kind
  c_status :: conflict_status
  c_resolution :: "string option"
  c_mergedData :: "json option"
  c_resolvedAt :: "nat option"
  c_resolvedBy :: "nat option"

datatype log_level = Debug | Info | Warn | Err

text \<open>
  Every call of \<^verbatim>\<open>strapi.entityService.create / update / delete\<close> is recorded, so that
  "no CMS write" is a statement about the record of calls as well as about the entities.
\<close>

datatype cms_write =
    CmsCreate string json
  | CmsUpdate string nat json
  | CmsDelete string nat

record store =
  content_types :: "string list"
  entities :: "((string \<times> nat) \<times> json) list"
  next_entity_id :: nat
  cms_writes :: "cms_write list"
  sync_metadata :: "metadata_row list"
  metadata_next_id :: nat
  conflict_log :: "conflict_row list"
  conflict_next_id :: nat
  logged :: "(log_level \<times> string) list"

definition log_line :: "log_level \<Rightarrow> string \<Rightarrow> store \<Rightarrow> store" where
  "log_line lvl msg st = st\<lparr>logged := logged st @ [(lvl, msg)]\<rparr>"

subsection \<open>The CMS entity service\<close>

text \<open>
  The CMS is an external collaborator. Its document store is a finite map from content
  type and id to the stored entity: \<open>findOne\<close> reads it, \<open>create\<close> stores the data under a
  fresh id (and returns the entity with that id), \<open>update\<close> overwrites the given fields of
  a stored entity, \<open>delete\<close> removes it.
\<close>

definition entity_findOne :: "store \<Rightarrow> string \<Rightarrow> nat \<Rightarrow> json option" where
  "entity_findOne st contentType entityId = map_of (entities st) (contentType, entityId)"

definition entity_create :: "string \<Rightarrow> json \<Rightarrow> store \<Rightarrow> nat \<times> store" where
  "entity_create contentType dat st =
     (let i = next_entity_id st;
          created = JObj (obj_set (own_props dat) ''id'' (JNum (int i)))
      in (i, st\<lparr>entities := entities st @ [((contentType, i), created)],
                next_entity_id := i + 1,
                cms_writes := cms_writes st @ [CmsCreate contentType dat]\<rparr>))"

definition merge_fields :: "json \<Rightarrow> json \<Rightarrow> json" where
  "merge_fields old dat = JObj (foldl (\<lambda>acc kv. obj_set acc (fst kv) (snd kv))
                                 (own_props old) (own_props dat))"

definition entity_update :: "string \<Rightarrow> nat \<Rightarrow> json \<Rightarrow> store \<Rightarrow> store" where
  "entity_update contentType entityId dat st =
     st\<lparr>entities := map (\<lambda>e. if fst e = (contentType, entityId)
                                then (fst e, merge_fields (snd e) dat) else e) (entities st),
        cms_writes := cms_writes st @ [CmsUpdate contentType entityId dat]\<rparr>"

definition entity_delete :: "string \<Rightarrow> nat \<Rightarrow> store \<Rightarrow> store" where
  "entity_delete contentType entityId st =
     st\<lparr>entities := filter (\<lambda>e. fst e \<noteq> (contentType, entityId)) (entities st),
        cms_writes := cms_writes st @ [CmsDelete contentType entityId]\<rparr>"

subsection \<open>Version tracker: metadata rows (version-tracker.ts)\<close>

definition metadata_for :: "string \<Rightarrow> nat \<Rightarrow> metadata_row \<Rightarrow> bool" where
  "metadata_for contentType entityId r =
     (m_contentType r = contentType \<and> m_entityId r = entityId)"

definition getMetadata :: "store \<Rightarrow> string \<Rightarrow> nat \<Rightarrow> metadata_row option" where
  "getMetadata st contentType entityId =
     find (metadata_for contentType entityId) (sync_metadata st)"

definition incrementVersion :: "string \<Rightarrow> nat \<Rightarrow> string \<Rightarrow> store \<Rightarrow> int \<times> store" where
  "incrementVersion contentType entityId location st =
     (case find (metadata_for contentType entityId) (sync_metadata st) of
        None \<Rightarrow>
          (1, st\<lparr>sync_metadata := sync_metadata st @
                    [\<lparr>m_id = metadata_next_id st, m_contentType = contentType,
                      m_entityId = entityId, m_syncVersion = 1,
                      m_modifiedByLocation = location, m_lastSyncedAt = None,
                      m_syncStatus = S_pending, m_conflictFlag = False\<rparr>],
                 metadata_next_id := metadata_next_id st + 1\<rparr>)
      | Some metadata \<Rightarrow>
          (let newVersion = m_syncVersion metadata + 1
           in (newVersion,
               st\<lparr>sync_metadata :=
                    update_first (\<lambda>r. m_id r = m_id metadata)
                      (\<lambda>r. r\<lparr>m_syncVersion := newVersion, m_modifiedByLocation := location,
                              m_syncStatus := S_pending\<rparr>)
                      (sync_metadata st)\<rparr>)))"

definition markSynced :: "nat \<Rightarrow> string \<Rightarrow> nat \<Rightarrow> store \<Rightarrow> store" where
  "markSynced now contentType entityId st =
     (case find (metadata_for contentType entityId) (sync_metadata st) of
        None \<Rightarrow> st
      | Some metadata \<Rightarrow>
          st\<lparr>sync_metadata :=
               update_first (\<lambda>r. m_id r = m_id metadata)
                 (\<lambda>r. r\<lparr>m_lastSyncedAt := Some now, m_syncStatus := S_synced,
                         m_conflictFlag := False\<rparr>)
                 (sync_metadata st)\<rparr>)"

subsection \<open>Conflict resolver: the conflict log (conflict-resolver.ts)\<close>

definition pending_conflict_for :: "string \<Rightarrow> nat \<Rightarrow> conflict_row \<Rightarrow> bool" where
  "pending_conflict_for contentType entityId r =
     (c_contentType r = contentType \<and> c_entityId r = entityId \<and> c_status r = C_pending)"

text \<open>The last parameter of \<open>flagConflict\<close> defaults to \<^verbatim>\<open>'direct'\<close> when it is
  \<^verbatim>\<open>undefined\<close>.\<close>

definition flagConflict ::
  "string \<Rightarrow> nat \<Rightarrow> json \<Rightarrow> json \<Rightarrow> string list \<Rightarrow> conflict_kind option \<Rightarrow> store \<Rightarrow> store" where
  "flagConflict contentType entityId localData remoteData cfields kind st =
     (let conflictType = (case kind of None \<Rightarrow> Direct | Some k \<Rightarrow> k)
      in case find (pending_conflict_for contentType entityId) (conflict_log st) of
           Some existing \<Rightarrow>
             st\<lparr>conflict_log :=
                  update_first (\<lambda>r. c_id r = c_id existing)
                    (\<lambda>r. r\<lparr>c_localData := localData, c_remoteData := remoteData,
                            c_conflictingFields := cfields, c_conflictType := conflictType\<rparr>)
                    (conflict_log st)\<rparr>
         | None \<Rightarrow>
             st\<lparr>conflict_log := conflict_log st @
                    [\<lparr>c_id = conflict_next_id st, c_contentType = contentType,
                      c_entityId = entityId, c_localData = localData,
                      c_remoteData = remoteData, c_conflictingFields = cfields,
                      c_conflictType = conflictType, c_status = C_pending,
                      c_resolution = None, c_mergedData = None, c_resolvedAt = None,
                      c_resolvedBy = None\<rparr>],
                 conflict_next_id := conflict_next_id st + 1\<rparr>)"

text \<open>At most one pending conflict per content type and entity id.\<close>

definition conflict_key :: "conflict_row \<Rightarrow> string \<times> nat" where
  "conflict_key r = (c_contentType r, c_entityId r)"

definition one_pending_conflict :: "conflict_row list \<Rightarrow> bool" where
  "one_pending_conflict rows =
     distinct (map conflict_key (filter (\<lambda>r. c_status r = C_pending) rows))"

section \<open>Applying a change (sync-service)\<close>

datatype source = Local | Remote

record change =
  ch_contentType :: string
  ch_entityId :: nat
  ch_data :: json
  ch_operation :: string
  ch_version :: int

text \<open>\<^verbatim>\<open>{...x, syncVersion: v}\<close>.\<close>

definition with_version :: "json \<Rightarrow> int \<Rightarrow> json" where
  "with_version x v = JObj (obj_set (own_props x) ''syncVersion'' (JNum v))"

text \<open>A looked-up entity in a condition: \<^verbatim>\<open>null\<close> is falsy.\<close>

definition present :: "json option \<Rightarrow> bool" where
  "present e = (case e of None \<Rightarrow> False | Some v \<Rightarrow> truthy v)"

definition source_name :: "source \<Rightarrow> string" where
  "source_name s = (case s of Local \<Rightarrow> ''local'' | Remote \<Rightarrow> ''remote'')"

text \<open>The \<^verbatim>\<open>switch (operation)\<close> of \<open>applyChange\<close>; any other operation falls through.\<close>

definition apply_operation :: "change \<Rightarrow> source \<Rightarrow> json option \<Rightarrow> store \<Rightarrow> store" where
  "apply_operation ch src localEntity st =
     (let contentType = ch_contentType ch; entityId = ch_entityId ch in
      if ch_operation ch = ''create'' then
        (if \<not> present localEntity then
           (let cr = entity_create contentType (ch_data ch) st;
                target = (if entityId \<noteq> 0 then entityId else fst cr)
            in snd (incrementVersion contentType target (source_name src) (snd cr)))
         else st)
      else if ch_operation ch = ''update'' then
        (if present localEntity then
           snd (incrementVersion contentType entityId (source_name src)
                  (entity_update contentType entityId (ch_data ch) st))
         else log_line Warn
                (''Entity '' @ contentType @ '':'' @ show_nat entityId
                 @ '' not found for update, skipping'') st)
      else if ch_operation ch = ''delete'' then
        (if present localEntity then
           (let st1 = entity_delete contentType entityId st
            in st1\<lparr>sync_metadata :=
                     delete_first (metadata_for contentType entityId) (sync_metadata st1)\<rparr>)
         else st)
      else st)"

text \<open>The path of \<open>applyChange\<close> without a conflict: the switch, then \<open>markSynced\<close>,
  then \<^verbatim>\<open>return false\<close>.\<close>

definition apply_and_mark ::
  "nat \<Rightarrow> change \<Rightarrow> source \<Rightarrow> json option \<Rightarrow> store \<Rightarrow> bool \<times> store" where
  "apply_and_mark now ch src localEntity st =
     (False,
      markSynced now (ch_contentType ch) (ch_entityId ch)
        (apply_operation ch src localEntity st))"

text \<open>
  \<open>applyChange\<close> returns \<open>True\<close> when a conflict was flagged. Its \<^verbatim>\<open>catch\<close> only logs and
  rethrows a failure of the CMS or of the database, which this store does not have.
\<close>

definition applyChange :: "nat \<Rightarrow> change \<Rightarrow> source \<Rightarrow> store \<Rightarrow> bool \<times> store" where
  "applyChange now ch src st =
     (let contentType = ch_contentType ch; entityId = ch_entityId ch in
      if contentType \<notin> set (content_types st)
      then (False,
            log_line Warn (''Content type '' @ contentType @ '' not found, skipping change'')
              st)
      else
        let localEntity = entity_findOne st contentType entityId;
            localMetadata = getMetadata st contentType entityId
        in case (localEntity, localMetadata) of
             (Some e, Some m) \<Rightarrow>
               if truthy e \<and> src = Remote then
                 (let conflict = detectConflict (with_version e (m_syncVersion m))
                                   (with_version (ch_data ch) (ch_version ch))
                  in if hasConflict conflict then
                       (let st1 = flagConflict contentType entityId e (ch_data ch)
                                    (case conflictingFields conflict of
                                       None \<Rightarrow> [] | Some fs \<Rightarrow> fs)
                                    (conflictType conflict) st
                        in (True,
                            st1\<lparr>sync_metadata :=
                                  update_first (metadata_for contentType entityId)
                                    (\<lambda>r. r\<lparr>m_syncStatus := S_conflict,
                                            m_conflictFlag := True\<rparr>)
                                    (sync_metadata st1)\<rparr>))
                     else apply_and_mark now ch src localEntity st)
               else apply_and_mark now ch src localEntity st
           | _ \<Rightarrow> apply_and_mark now ch src localEntity st)"

section \<open>Manual conflict resolution (conflict-resolver.ts)\<close>

text \<open>
  A thrown value. \<open>Error m\<close> is a value whose \<^verbatim>\<open>message\<close> property reads as the text
  \<open>m\<close> in a template string: an \<^verbatim>\<open>Error\<close> with that message, or any other thrown value
  that is neither \<^verbatim>\<open>null\<close> nor \<^verbatim>\<open>undefined\<close> (without the property the text is
  \<^verbatim>\<open>undefined\<close>). The other two are a thrown \<^verbatim>\<open>null\<close> and a thrown \<^verbatim>\<open>undefined\<close>.
\<close>

datatype thrown = Error string | ThrownNull | ThrownUndefined

text \<open>
  The names every plain object inherits from \<^verbatim>\<open>Object.prototype\<close>. Reading one of them
  from an object without an own property of that name gives the inherited member, which
  is not \<^verbatim>\<open>undefined\<close>.
\<close>

definition prototype_names :: "string list" where
  "prototype_names =
     [''constructor'', ''__defineGetter__'', ''__defineSetter__'', ''hasOwnProperty'',
      ''__lookupGetter__'', ''__lookupSetter__'', ''isPrototypeOf'', ''propertyIsEnumerable'',
      ''toString'', ''valueOf'', ''__proto__'', ''toLocaleString'']"

text \<open>
  \<open>autoMerge\<close>: a copy of the local data (\<^verbatim>\<open>{...local}\<close>), with every remote field
  outside the list for which \<^verbatim>\<open>merged[key] === undefined\<close>: the copy has no own property
  of that name and inherits none.
\<close>

definition autoMerge :: "json \<Rightarrow> json \<Rightarrow> json" where
  "autoMerge local remote =
     JObj (foldl (\<lambda>merged kv.
                    if fst kv \<notin> set [''id'', ''createdAt'', ''updatedAt'', ''syncVersion'']
                       \<and> map_of merged (fst kv) = None \<and> fst kv \<notin> set prototype_names
                    then merged @ [kv] else merged)
             (own_props local) (own_props remote))"

text \<open>The \<^verbatim>\<open>switch (resolution)\<close>; \<open>None\<close> is its \<^verbatim>\<open>default\<close> branch, which throws.\<close>

definition final_data :: "string \<Rightarrow> json option \<Rightarrow> conflict_row \<Rightarrow> json option" where
  "final_data resolution mergedData conflict =
     (if resolution = ''keep_local'' then Some (c_localData conflict)
      else if resolution = ''keep_remote'' then Some (c_remoteData conflict)
      else if resolution = ''merge'' then
        Some (or_else mergedData (autoMerge (c_localData conflict) (c_remoteData conflict)))
      else None)"

text \<open>
  Every \<^verbatim>\<open>await\<close> of \<open>resolveConflict\<close> calls the database or the CMS and may reject.
  \<open>faults\<close> gives, for each of them in program order, the value it rejects with, \<open>None\<close>
  when it answers: the lookup of the conflict row, the lookup of the entity, the write of
  the entity (\<open>create\<close> or \<open>update\<close>), the update of the conflict row, and \<open>markSynced\<close>.
  A call that rejects has written nothing.
\<close>

record faults =
  conflict_findOne_fault :: "thrown option"
  entity_findOne_fault :: "thrown option"
  entity_write_fault :: "thrown option"
  conflict_update_fault :: "thrown option"
  markSynced_fault :: "thrown option"

definition no_faults :: faults where
  "no_faults =
     \<lparr>conflict_findOne_fault = None, entity_findOne_fault = None, entity_write_fault = None,
      conflict_update_fault = None, markSynced_fault = None\<rparr>"

text \<open>The \<^verbatim>\<open>if (!entity) ... else ...\<close> of \<open>resolveConflict\<close>: the store after the write,
  or the value the write rejected with.\<close>

definition write_entity ::
  "faults \<Rightarrow> string \<Rightarrow> nat \<Rightarrow> string \<Rightarrow> json \<Rightarrow> store \<Rightarrow> thrown + store" where
  "write_entity io contentType entityId resolution finalData st =
     (if \<not> present (entity_findOne st contentType entityId) then
        (if resolution = ''keep_local'' \<or> resolution = ''merge''
         then (case entity_write_fault io of
                 Some e \<Rightarrow> Inl e
               | None \<Rightarrow> Inr (snd (entity_create contentType finalData st)))
         else Inr st)
      else (case entity_write_fault io of
              Some e \<Rightarrow> Inl e
            | None \<Rightarrow> Inr (entity_update contentType entityId finalData st)))"

definition resolveConflict ::
  "faults \<Rightarrow> nat \<Rightarrow> string \<Rightarrow> json option \<Rightarrow> nat option \<Rightarrow> nat \<Rightarrow> store
     \<Rightarrow> (thrown + unit) \<times> store" where
  "resolveConflict io conflictId resolution mergedData resolvedBy now st =
     (case conflict_findOne_fault io of
        Some e \<Rightarrow> (Inl e, st)
      | None \<Rightarrow>
     (case find (\<lambda>r. c_id r = conflictId) (conflict_log st) of
        None \<Rightarrow> (Inl (Error ''Conflict not found or already resolved''), st)
      | Some conflict \<Rightarrow>
          if c_status conflict = C_resolved
          then (Inl (Error ''Conflict not found or already resolved''), st)
          else
            (case final_data resolution mergedData conflict of
               None \<Rightarrow> (Inl (Error (''Invalid resolution: '' @ resolution)), st)
             | Some finalData \<Rightarrow>
                 (case entity_findOne_fault io of
                    Some e \<Rightarrow> (Inl e, st)
                  | None \<Rightarrow>
                 (case write_entity io (c_contentType conflict) (c_entityId conflict)
                         resolution finalData st of
                    Inl e \<Rightarrow> (Inl e, st)
                  | Inr st1 \<Rightarrow>
                 (case conflict_update_fault io of
                    Some e \<Rightarrow> (Inl e, st1)
                  | None \<Rightarrow>
                 (let st2 = st1\<lparr>conflict_log :=
                                  update_first (\<lambda>r. c_id r = conflictId)
                                    (\<lambda>r. r\<lparr>c_status := C_resolved,
                                            c_resolution := Some resolution,
                                            c_mergedData := Some finalData,
                                            c_resolvedAt := Some now,
                                            c_resolvedBy := resolvedBy\<rparr>)
                                    (conflict_log st1)\<rparr>
                  in case markSynced_fault io of
                       Some e \<Rightarrow> (Inl e, st2)
                     | None \<Rightarrow>
                         (Inr (),
                          markSynced now (c_contentType conflict) (c_entityId conflict)
                            st2))))))))"

section \<open>Peer-liveness tracker (ship-tracker.ts)\<close>

text \<open>Times are milliseconds since the epoch, as \<^verbatim>\<open>Date.getTime()\<close> gives them.\<close>

record session_row =
  s_id :: nat
  s_shipId :: string
  s_lastSeenAt :: int
  s_isOnline :: bool
  s_onlineThreshold :: "int option"
  s_totalSyncs :: nat

text \<open>\<^verbatim>\<open>session.onlineThreshold || 300000\<close>: a missing or zero threshold is the default of
  five minutes.\<close>

definition threshold_of :: "session_row \<Rightarrow> int" where
  "threshold_of session =
     (case s_onlineThreshold session of
        None \<Rightarrow> 300000
      | Some t \<Rightarrow> if t = 0 then 300000 else t)"

definition timeSinceLastSeen :: "int \<Rightarrow> session_row \<Rightarrow> int" where
  "timeSinceLastSeen now session = now - s_lastSeenAt session"

definition isShipOnline :: "int \<Rightarrow> string \<Rightarrow> session_row list \<Rightarrow> bool \<times> session_row list" where
  "isShipOnline now shipId sessions =
     (case find (\<lambda>s. s_shipId s = shipId) sessions of
        None \<Rightarrow> (False, sessions)
      | Some session \<Rightarrow>
          (let isOnline = (timeSinceLastSeen now session < threshold_of session)
           in (isOnline,
               if s_isOnline session \<noteq> isOnline
               then update_first (\<lambda>r. s_id r = s_id session)
                      (\<lambda>r. r\<lparr>s_isOnline := isOnline\<rparr>) sessions
               else sessions)))"

text \<open>\<open>markOfflineShips\<close>: the loop over the sessions found online.\<close>

definition mark_offline_step :: "int \<Rightarrow> session_row list \<Rightarrow> session_row \<Rightarrow> session_row list" where
  "mark_offline_step now tbl session =
     (if timeSinceLastSeen now session \<ge> threshold_of session
      then update_first (\<lambda>r. s_id r = s_id session) (\<lambda>r. r\<lparr>s_isOnline := False\<rparr>) tbl
      else tbl)"

definition markOfflineShips :: "int \<Rightarrow> session_row list \<Rightarrow> session_row list" where
  "markOfflineShips now sessions =
     foldl (mark_offline_step now) sessions (filter s_isOnline sessions)"

section \<open>Lifecycle interceptor: the document middleware (bootstrap.ts)\<close>

text \<open>
  The middleware talks to services that live outside it (version manager, outbound queue,
  bus producer, master queue, media sync, the document service). Each call is recorded as
  an event with the method, its JSON arguments and whether it threw, and its outcome (a
  value or a thrown value) is given by the environment, so that every call may fail. Log
  calls are recorded with their level and text; the pictographs of three info messages are
  left out.
\<close>

datatype event =
    Call string "json list" bool
  | LogEv log_level string

type_synonym 'a comp = "(thrown + 'a) \<times> event list"

definition ret :: "'a \<Rightarrow> 'a comp" where
  "ret x = (Inr x, [])"

definition bind :: "'a comp \<Rightarrow> ('a \<Rightarrow> 'b comp) \<Rightarrow> 'b comp" where
  "bind m f =
     (case fst m of
        Inl e \<Rightarrow> (Inl e, snd m)
      | Inr x \<Rightarrow> (fst (f x), snd m @ snd (f x)))"

text \<open>\<^verbatim>\<open>try { m } catch (e) { h e }\<close>.\<close>

definition catch :: "'a comp \<Rightarrow> (thrown \<Rightarrow> 'a comp) \<Rightarrow> 'a comp" where
  "catch m h =
     (case fst m of
        Inl e \<Rightarrow> (fst (h e), snd m @ snd (h e))
      | Inr x \<Rightarrow> m)"

definition call :: "string \<Rightarrow> json list \<Rightarrow> thrown + 'a \<Rightarrow> 'a comp" where
  "call name args outcome = (outcome, [Call name args (isl outcome)])"

definition log_ev :: "log_level \<Rightarrow> string \<Rightarrow> unit comp" where
  "log_ev lvl msg = (Inr (), [LogEv lvl msg])"

text \<open>\<^verbatim>\<open>error.message\<close>: reading it from \<^verbatim>\<open>null\<close> or \<^verbatim>\<open>undefined\<close> throws a TypeError,
  with the message that Node gives it.\<close>

definition message_of :: "thrown \<Rightarrow> string comp" where
  "message_of e =
     (case e of
        Error m \<Rightarrow> ret m
      | ThrownNull \<Rightarrow>
          (Inl (Error ''Cannot read properties of null (reading 'message')''), [])
      | ThrownUndefined \<Rightarrow>
          (Inl (Error ''Cannot read properties of undefined (reading 'message')''), []))"

text \<open>\<^verbatim>\<open>`${v}`\<close>: the string a value is interpolated as.\<close>

fun js_string :: "json \<Rightarrow> string" where
  "js_string JNull = ''null''"
| "js_string (JBool b) = (if b then ''true'' else ''false'')"
| "js_string (JNum n) = show_int n"
| "js_string (JStr s) = s"
| "js_string (JArr xs) = join '','' (map (\<lambda>x. if x = JNull then [] else js_string x) xs)"
| "js_string (JObj kvs) = ''[object Object]''"

record hook_env =
  h_mode :: sync_mode
  h_shipId :: string
  h_contentTypes :: "string list"
  h_fromMaster :: bool
  h_fromShip :: bool
  h_now :: nat
  h_nowIso :: string
  h_findOne :: "string \<Rightarrow> string \<Rightarrow> thrown + json"
  h_incrementVersion :: "string \<Rightarrow> string \<Rightarrow> string \<Rightarrow> thrown + int"
  h_enqueue :: "json \<Rightarrow> thrown + unit"
  h_offlineSyncPush :: "(thrown + unit) option"
  h_logEdit :: "json \<Rightarrow> thrown + unit"
  h_isEnabled :: "thrown + bool"
  h_extractFileIds :: "json \<Rightarrow> thrown + string list"
  h_getFileRecords :: "string list \<Rightarrow> thrown + json list"
  h_isConnected :: "thrown + bool"
  h_sendToShips :: "json \<Rightarrow> thrown + unit"
  h_masterEnqueue :: "json \<Rightarrow> thrown + unit"

record sync_context =
  ctx_action :: string
  ctx_uid :: string
  ctx_documentId :: json
  ctx_locale :: json

definition trackedActions :: "string list" where
  "trackedActions = [''create'', ''update'', ''delete'', ''publish'']"

text \<open>\<^verbatim>\<open>v && typeof v === 'string'\<close>, and the same test on a property of the result.\<close>

definition nonempty_string :: "json \<Rightarrow> string option" where
  "nonempty_string v = (case v of JStr s \<Rightarrow> if s \<noteq> [] then Some s else None | _ \<Rightarrow> None)"

definition string_prop :: "json \<Rightarrow> string \<Rightarrow> string option" where
  "string_prop v k = (case get_prop v k of None \<Rightarrow> None | Some p \<Rightarrow> nonempty_string p)"

definition resolve_documentId :: "string \<Rightarrow> json \<Rightarrow> json \<Rightarrow> string option" where
  "resolve_documentId action paramsDocumentId result =
     (if action = ''delete'' then
        (case nonempty_string paramsDocumentId of
           Some d \<Rightarrow> Some d
         | None \<Rightarrow> string_prop result ''documentId'')
      else
        (case string_prop result ''documentId'' of
           Some d \<Rightarrow> Some d
         | None \<Rightarrow>
             (case string_prop result ''id'' of
                Some d \<Rightarrow> Some d
              | None \<Rightarrow> nonempty_string paramsDocumentId)))"

definition is_array :: "json \<Rightarrow> bool" where
  "is_array v = (case v of JArr xs \<Rightarrow> True | _ \<Rightarrow> False)"

text \<open>The bulk test on a result that is an object and not an array (an array has
  returned before): \<^verbatim>\<open>'count' in result || 'deletedCount' in result || 'entries' in result\<close>.\<close>

definition is_bulk_result :: "json \<Rightarrow> bool" where
  "is_bulk_result v =
     (case v of
        JObj kvs \<Rightarrow> ''count'' \<in> set (map fst kvs) \<or> ''deletedCount'' \<in> set (map fst kvs)
                      \<or> ''entries'' \<in> set (map fst kvs)
      | _ \<Rightarrow> False)"

definition operation_of :: "string \<Rightarrow> string" where
  "operation_of action =
     (if action = ''delete'' then ''delete''
      else if action = ''create'' then ''create'' else ''update'')"

text \<open>\<^verbatim>\<open>paramsLocale || result?.locale || null\<close>.\<close>

definition locale_of :: "json \<Rightarrow> json \<Rightarrow> json" where
  "locale_of paramsLocale result =
     (if truthy paramsLocale then paramsLocale else or_else (get_prop result ''locale'') JNull)"

definition locale_suffix :: "json \<Rightarrow> string" where
  "locale_suffix locale = (if truthy locale then '' ['' @ js_string locale @ '']'' else [])"

text \<open>For a publish whose result is missing or has fewer than three keys, the full
  document is fetched; a failed fetch keeps the result.\<close>

definition fetch_sync_data :: "hook_env \<Rightarrow> string \<Rightarrow> string \<Rightarrow> string \<Rightarrow> json \<Rightarrow> json comp" where
  "fetch_sync_data env action uid documentId result =
     (if action = ''publish'' \<and> (\<not> truthy result \<or> length (own_props result) < 3)
      then catch (call ''documents.findOne'' [JStr uid, JStr documentId]
                    (h_findOne env uid documentId))
                 (\<lambda>e. ret result)
      else ret result)"

definition safe_data :: "string \<Rightarrow> json \<Rightarrow> json" where
  "safe_data operation syncData =
     (if operation \<noteq> ''delete'' then stripSensitiveData syncData else JNull)"

subsection \<open>Replica branch\<close>

definition queue_entry :: "hook_env \<Rightarrow> string \<Rightarrow> string \<Rightarrow> string \<Rightarrow> int \<Rightarrow> json \<Rightarrow> json \<Rightarrow> json" where
  "queue_entry env uid documentId operation version safeData locale =
     JObj [(''shipId'', JStr (h_shipId env)), (''contentType'', JStr uid),
           (''contentId'', JStr documentId), (''operation'', JStr operation),
           (''localVersion'', JNum version), (''data'', safeData), (''locale'', locale)]"

definition replica_body ::
  "hook_env \<Rightarrow> string \<Rightarrow> string \<Rightarrow> string \<Rightarrow> string \<Rightarrow> json \<Rightarrow> json \<Rightarrow> unit comp" where
  "replica_body env action uid documentId operation syncData locale =
     bind (if operation \<noteq> ''delete''
           then call ''version-manager.incrementVersion''
                  [JStr uid, JStr documentId, JStr (h_shipId env)]
                  (h_incrementVersion env uid documentId (h_shipId env))
           else ret 0)
       (\<lambda>version.
     bind (call ''sync-queue.enqueue''
             [queue_entry env uid documentId operation version
                (safe_data operation syncData) locale]
             (h_enqueue env
                (queue_entry env uid documentId operation version
                   (safe_data operation syncData) locale)))
       (\<lambda>_.
     bind (log_ev Info (''[Sync] Queued '' @ operation @ '' for '' @ uid @ '' ('' @ documentId
                        @ '')'' @ locale_suffix locale))
       (\<lambda>_.
     (case h_offlineSyncPush env of
        None \<Rightarrow> ret ()
      | Some outcome \<Rightarrow> call ''offlineSyncPush'' [] outcome))))"

definition replica_branch ::
  "hook_env \<Rightarrow> string \<Rightarrow> string \<Rightarrow> string \<Rightarrow> string \<Rightarrow> json \<Rightarrow> json \<Rightarrow> json \<Rightarrow> json option comp" where
  "replica_branch env action uid documentId operation syncData locale result =
     (if h_fromMaster env then
        bind (log_ev Debug (''[Sync] Skipping queue for '' @ uid @ '' ('' @ documentId
                            @ '') - originated from master''))
          (\<lambda>_. ret (Some result))
      else
        bind (catch (replica_body env action uid documentId operation syncData locale)
                (\<lambda>error.
                   bind (message_of error)
                     (\<lambda>m. log_ev Err (''[Sync] Queue error for '' @ action @ '' '' @ uid
                                      @ '': '' @ m))))
          (\<lambda>_. ret None))"

subsection \<open>Master branch\<close>

definition file_records :: "hook_env \<Rightarrow> json \<Rightarrow> json list comp" where
  "file_records env safeData =
     bind (call ''media-sync.isEnabled'' [] (h_isEnabled env))
       (\<lambda>enabled.
     if enabled then
       bind (call ''media-sync.extractFileIds'' [safeData] (h_extractFileIds env safeData))
         (\<lambda>fileIds.
       if length fileIds > 0 then
         bind (call ''media-sync.getFileRecords'' [JArr (map JStr fileIds)]
                 (h_getFileRecords env fileIds))
           (\<lambda>fileRecords.
         bind (log_ev Debug (''[Sync] Including '' @ show_nat (length fileRecords)
                             @ '' file records for ships''))
           (\<lambda>_. ret fileRecords))
       else ret [])
     else ret [])"

definition ship_message ::
  "hook_env \<Rightarrow> string \<Rightarrow> string \<Rightarrow> string \<Rightarrow> json \<Rightarrow> json \<Rightarrow> json list \<Rightarrow> json" where
  "ship_message env uid documentId operation safeData locale fileRecords =
     JObj ([(''messageId'', JStr (''master-'' @ show_nat (h_now env) @ ''-'' @ documentId)),
            (''shipId'', JStr ''master''), (''timestamp'', JStr (h_nowIso env)),
            (''operation'', JStr operation), (''contentType'', JStr uid),
            (''contentId'', JStr documentId), (''version'', JNum 0), (''data'', safeData),
            (''locale'', locale)]
           @ (if length fileRecords > 0 then [(''fileRecords'', JArr fileRecords)] else []))"

definition master_entry ::
  "string \<Rightarrow> string \<Rightarrow> string \<Rightarrow> json \<Rightarrow> json \<Rightarrow> json list \<Rightarrow> json" where
  "master_entry uid documentId operation safeData locale fileRecords =
     JObj [(''contentType'', JStr uid), (''contentId'', JStr documentId),
           (''operation'', JStr operation),
           (''data'',
            JObj (if length fileRecords > 0
                  then obj_set (own_props safeData) ''_fileRecords'' (JArr fileRecords)
                  else own_props safeData)),
           (''locale'', locale)]"

definition master_body ::
  "hook_env \<Rightarrow> string \<Rightarrow> string \<Rightarrow> string \<Rightarrow> json \<Rightarrow> json \<Rightarrow> unit comp" where
  "master_body env uid documentId operation syncData locale =
     (let safeData = safe_data operation syncData;
          edit = JObj [(''contentType'', JStr uid), (''documentId'', JStr documentId),
                       (''operation'', JStr operation), (''editedBy'', JStr ''master-admin''),
                       (''locale'', locale)]
      in
     bind (call ''master-sync-queue.logEdit'' [edit] (h_logEdit env edit))
       (\<lambda>_.
     bind (if truthy safeData \<and> operation \<noteq> ''delete''
           then catch (file_records env safeData)
                  (\<lambda>fileErr.
                     bind (message_of fileErr)
                       (\<lambda>m. bind (log_ev Debug (''[Sync] File record extraction skipped: '' @ m))
                               (\<lambda>_. ret [])))
           else ret [])
       (\<lambda>fileRecords.
     bind (call ''kafka-producer.isConnected'' [] (h_isConnected env))
       (\<lambda>connected.
     if connected then
       bind (call ''kafka-producer.sendToShips''
               [ship_message env uid documentId operation safeData locale fileRecords]
               (h_sendToShips env
                  (ship_message env uid documentId operation safeData locale fileRecords)))
         (\<lambda>_. log_ev Info (''[Sync] Published '' @ operation @ '' for '' @ uid @ '' (''
                            @ documentId @ '')'' @ locale_suffix locale @ '' to ships''))
     else
       bind (call ''master-sync-queue.enqueue''
               [master_entry uid documentId operation safeData locale fileRecords]
               (h_masterEnqueue env
                  (master_entry uid documentId operation safeData locale fileRecords)))
         (\<lambda>_. log_ev Info (''[Sync] Queued '' @ operation @ '' for '' @ uid @ '' (''
                            @ documentId @ '')'' @ locale_suffix locale
                            @ '' (Kafka offline)''))))))"

definition master_branch ::
  "hook_env \<Rightarrow> string \<Rightarrow> string \<Rightarrow> string \<Rightarrow> json \<Rightarrow> json \<Rightarrow> json \<Rightarrow> json option comp" where
  "master_branch env uid documentId operation syncData locale result =
     (if h_fromShip env then
        bind (log_ev Debug (''[Sync] Skipping broadcast for '' @ uid @ '' ('' @ documentId
                            @ '') - originated from ship''))
          (\<lambda>_. ret (Some result))
      else
        bind (catch (master_body env uid documentId operation syncData locale)
                (\<lambda>error.
                   bind (message_of error)
                     (\<lambda>m. log_ev Debug (''[Sync] Failed to publish/queue to ships: '' @ m))))
          (\<lambda>_. ret None))"

subsection \<open>The middleware\<close>

text \<open>
  The body of the outer \<^verbatim>\<open>try\<close>. \<open>Some v\<close> is a \<^verbatim>\<open>return v\<close> inside the block, \<open>None\<close>
  is falling out of it.
\<close>

definition sync_logic :: "hook_env \<Rightarrow> sync_context \<Rightarrow> json \<Rightarrow> json option comp" where
  "sync_logic env ctx result =
     (let action = ctx_action ctx; uid = ctx_uid ctx in
      if length (h_contentTypes env) > 0 \<and> uid \<notin> set (h_contentTypes env) then ret (Some result)
      else if action \<notin> set trackedActions then ret (Some result)
      else
        (case resolve_documentId action (ctx_documentId ctx) result of
           None \<Rightarrow>
             bind (log_ev Debug (''[Sync] Skipping '' @ action @ '' for '' @ uid
                                 @ '' - no valid documentId''))
               (\<lambda>_. ret (Some result))
         | Some documentId \<Rightarrow>
             if action \<noteq> ''delete'' \<and> is_array result then
               bind (log_ev Debug (''[Sync] Skipping array result for '' @ uid))
                 (\<lambda>_. ret (Some result))
             else if action \<noteq> ''delete'' \<and> is_bulk_result result then
               bind (log_ev Debug (''[Sync] Skipping bulk/count result for '' @ uid))
                 (\<lambda>_. ret (Some result))
             else
               (let operation = operation_of action;
                    locale = locale_of (ctx_locale ctx) result
                in bind (fetch_sync_data env action uid documentId result)
                     (\<lambda>syncData.
                        case h_mode env of
                          Replica \<Rightarrow>
                            replica_branch env action uid documentId operation syncData
                              locale result
                        | Master \<Rightarrow>
                            master_branch env uid documentId operation syncData locale
                              result))))"

text \<open>
  The middleware. \<open>next\<close> is the outcome of the CMS operation \<^verbatim>\<open>await next()\<close>: plugin and
  admin content types pass straight through; otherwise a failed operation propagates
  before any sync logic runs, and a successful one is followed by the guarded sync logic
  and \<^verbatim>\<open>return result\<close>.
\<close>

definition middleware :: "hook_env \<Rightarrow> sync_context \<Rightarrow> thrown + json \<Rightarrow> json comp" where
  "middleware env ctx next =
     (if ctx_uid ctx = [] \<or> starts_with (ctx_uid ctx) ''plugin::''
         \<or> starts_with (ctx_uid ctx) ''admin::''
      then (next, [])
      else
        (case next of
           Inl e \<Rightarrow> (Inl e, [])
         | Inr result \<Rightarrow>
             bind (catch (sync_logic env ctx result)
                     (\<lambda>syncError.
                        bind (message_of syncError)
                          (\<lambda>m. bind (log_ev Debug
                                       (''[Sync] Sync processing error (non-blocking): '' @ m))
                                  (\<lambda>_. ret None))))
               (\<lambda>returned. case returned of Some v \<Rightarrow> ret v | None \<Rightarrow> ret result)))"

text \<open>The events that propagate a change: a version bump, an outbound queue entry or push
  on the replica; an audit entry, a publish or a broadcast queue entry on the master.\<close>

definition propagating :: "event \<Rightarrow> bool" where
  "propagating ev =
     (case ev of
        Call name args threw \<Rightarrow>
          name \<in> set [''version-manager.incrementVersion'', ''sync-queue.enqueue'',
                       ''offlineSyncPush'', ''master-sync-queue.logEdit'',
                       ''kafka-producer.sendToShips'', ''master-sync-queue.enqueue'']
      | LogEv lvl msg \<Rightarrow> False)"

text \<open>What the guarded sync logic can end in: a \<^verbatim>\<open>return result\<close>, falling out of the
  block, or a thrown \<^verbatim>\<open>Error\<close>.\<close>

definition returns_or_errors :: "json \<Rightarrow> json option comp \<Rightarrow> bool" where
  "returns_or_errors result m =
     (case fst m of
        Inr returned \<Rightarrow> (case returned of Some v \<Rightarrow> v = result | None \<Rightarrow> True)
      | Inl e \<Rightarrow> (case e of Error msg \<Rightarrow> True | _ \<Rightarrow> False))"

text \<open>A computation that propagates nothing.\<close>

definition quiet :: "'a comp \<Rightarrow> bool" where
  "quiet m = (filter propagating (snd m) = [])"

text \<open>
  A failure of the sync logic is a call that threw. It is logged when the very next event
  is a log line at debug or error level. \<open>exempt\<close> names the calls whose failures are
  left aside.
\<close>

definition is_failure :: "string list \<Rightarrow> event \<Rightarrow> bool" where
  "is_failure exempt ev =
     (case ev of
        Call name args threw \<Rightarrow> threw \<and> name \<notin> set exempt
      | LogEv lvl msg \<Rightarrow> False)"

definition reports_failure :: "event \<Rightarrow> bool" where
  "reports_failure ev =
     (case ev of
        LogEv lvl msg \<Rightarrow> lvl = Debug \<or> lvl = Err
      | Call name args threw \<Rightarrow> False)"

fun failures_logged :: "string list \<Rightarrow> event list \<Rightarrow> bool" where
  "failures_logged exempt [] = True"
| "failures_logged exempt [ev] = (\<not> is_failure exempt ev)"
| "failures_logged exempt (ev # nxt # rest) =
     ((if is_failure exempt ev then reports_failure nxt else True)
      \<and> failures_logged exempt (nxt # rest))"

text \<open>
  What holds of every part of the sync logic: when it returns, every failure on its way
  was logged; when it throws, the last event is the call that threw (or the one whose
  handler threw) and every failure before it was logged.
\<close>

definition threw_last :: "event list \<Rightarrow> bool" where
  "threw_last tr =
     (tr \<noteq> [] \<and> (case last tr of Call name args threw \<Rightarrow> threw | LogEv lvl msg \<Rightarrow> False))"

definition tidy :: "string list \<Rightarrow> 'a comp \<Rightarrow> bool" where
  "tidy exempt m =
     (case fst m of
        Inr x \<Rightarrow> failures_logged exempt (snd m)
      | Inl e \<Rightarrow> threw_last (snd m) \<and> failures_logged exempt (butlast (snd m)))"

section \<open>Example inputs\<close>

definition ex_local :: json where
  "ex_local = JObj [(''id'', JNum 7), (''title'', JStr ''A''), (''syncVersion'', JNum 1)]"

definition ex_remote :: json where
  "ex_remote =
     JObj [(''title'', JStr ''A''), (''subtitle'', JStr ''B''), (''syncVersion'', JNum 2)]"

definition ex_oss :: string where
  "ex_oss = ''https://oss.example''"

definition ex_minio :: string where
  "ex_minio = ''http://minio.local/media''"

definition ex_master_payload :: json where
  "ex_master_payload =
     JObj [(''title'', JStr ''Menu''),
           (''cover'', JObj [(''url'', JStr ''https://oss.example/img.jpg'')]),
           (''gallery'', JArr [JStr ''https://oss.example/a.png'', JNum 2])]"

definition ex_replica_payload :: json where
  "ex_replica_payload = JObj [(''url'', JStr ''http://minio.local/media/new.png'')]"





definition ex_entity :: json where
  "ex_entity = JObj [(''id'', JNum 5), (''title'', JStr ''B'')]"

definition ex_meta :: metadata_row where
  "ex_meta =
     \<lparr>m_id = 1, m_contentType = ''api::article.article'', m_entityId = 5, m_syncVersion = 3,
      m_modifiedByLocation = ''master'', m_lastSyncedAt = None, m_syncStatus = S_pending,
      m_conflictFlag = False\<rparr>"

definition ex_orphan_meta :: metadata_row where
  "ex_orphan_meta =
     \<lparr>m_id = 2, m_contentType = ''api::article.article'', m_entityId = 9, m_syncVersion = 2,
      m_modifiedByLocation = ''ship-1'', m_lastSyncedAt = None, m_syncStatus = S_pending,
      m_conflictFlag = False\<rparr>"

definition ex_store :: store where
  "ex_store =
     \<lparr>content_types = [''api::article.article''],
      entities = [((''api::article.article'', 5), ex_entity)],
      next_entity_id = 10, cms_writes = [],
      sync_metadata = [ex_meta, ex_orphan_meta], metadata_next_id = 3,
      conflict_log = [], conflict_next_id = 1, logged = []\<rparr>"

definition ex_change :: change where
  "ex_change =
     \<lparr>ch_contentType = ''api::article.article'', ch_entityId = 5,
      ch_data = JObj [(''title'', JStr ''A'')], ch_operation = ''update'', ch_version = 4\<rparr>"

definition ex_orphan_update :: change where
  "ex_orphan_update =
     \<lparr>ch_contentType = ''api::article.article'', ch_entityId = 9,
      ch_data = JObj [(''title'', JStr ''Z'')], ch_operation = ''update'', ch_version = 3\<rparr>"

definition ex_pending_conflict :: conflict_row where
  "ex_pending_conflict =
     \<lparr>c_id = 1, c_contentType = ''api::article.article'', c_entityId = 5,
      c_localData = ex_entity, c_remoteData = JObj [(''title'', JStr ''A'')],
      c_conflictingFields = [''title''], c_conflictType = Direct, c_status = C_pending,
      c_resolution = None, c_mergedData = None, c_resolvedAt = None, c_resolvedBy = None\<rparr>"

definition ex_resolved_conflict :: conflict_row where
  "ex_resolved_conflict =
     \<lparr>c_id = 2, c_contentType = ''api::article.article'', c_entityId = 9,
      c_localData = JObj [(''title'', JStr ''X'')], c_remoteData = JObj [(''title'', JStr ''Z'')],
      c_conflictingFields = [''title''], c_conflictType = Direct, c_status = C_resolved,
      c_resolution = Some ''keep_local'', c_mergedData = Some (JObj [(''title'', JStr ''X'')]),
      c_resolvedAt = Some 500, c_resolvedBy = Some 1\<rparr>"

definition ex_conflict_store :: store where
  "ex_conflict_store =
     ex_store\<lparr>conflict_log := [ex_pending_conflict, ex_resolved_conflict],
              conflict_next_id := 3\<rparr>"

definition ex_sessions :: "session_row list" where
  "ex_sessions =
     [\<lparr>s_id = 1, s_shipId = ''ship-1'', s_lastSeenAt = 1000000, s_isOnline = True,
       s_onlineThreshold = Some 300000, s_totalSyncs = 4\<rparr>,
      \<lparr>s_id = 2, s_shipId = ''ship-2'', s_lastSeenAt = 1250000, s_isOnline = False,
       s_onlineThreshold = None, s_totalSyncs = 0\<rparr>]"

definition ex_env :: hook_env where
  "ex_env =
     \<lparr>h_mode = Replica, h_shipId = ''ship-1'', h_contentTypes = [],
      h_fromMaster = False, h_fromShip = False, h_now = 1700000000000,
      h_nowIso = ''2023-11-14T22:13:20.000Z'',
      h_findOne = (\<lambda>uid documentId. Inr JNull),
      h_incrementVersion = (\<lambda>uid documentId shipId. Inr 2),
      h_enqueue = (\<lambda>entry. Inl (Error ''queue table locked'')),
      h_offlineSyncPush = Some (Inr ()),
      h_logEdit = (\<lambda>edit. Inr ()),
      h_isEnabled = Inr False,
      h_extractFileIds = (\<lambda>d. Inr []),
      h_getFileRecords = (\<lambda>ids. Inr []),
      h_isConnected = Inr True,
      h_sendToShips = (\<lambda>message. Inl ThrownNull),
      h_masterEnqueue = (\<lambda>entry. Inr ())\<rparr>"

definition ex_ctx :: sync_context where
  "ex_ctx =
     \<lparr>ctx_action = ''update'', ctx_uid = ''api::article.article'',
      ctx_documentId = JStr ''doc1'', ctx_locale = JNull\<rparr>"

definition ex_result :: json where
  "ex_result = JObj [(''documentId'', JStr ''doc1''), (''title'', JStr ''A'')]"

definition ex_user_result :: json where
  "ex_user_result = JObj [(''documentId'', JStr ''doc1''), (''password'', JStr ''hunter2'')]"

definition ex_publish_env :: hook_env where
  "ex_publish_env =
     ex_env\<lparr>h_findOne := (\<lambda>uid documentId. Inl (Error ''database down'')),
            h_enqueue := (\<lambda>entry. Inr ())\<rparr>"

definition ex_publish_ctx :: sync_context where
  "ex_publish_ctx = ex_ctx\<lparr>ctx_action := ''publish''\<rparr>"

definition ex_zero_session :: session_row where
  "ex_zero_session =
     \<lparr>s_id = 3, s_shipId = ''ship-9'', s_lastSeenAt = 1000000, s_isOnline = False,
      s_onlineThreshold = Some 0, s_totalSyncs = 0\<rparr>"

definition ex_numbered :: json where
  "ex_numbered =
     JObj [(''b'', JStr ''x''), (''10'', JStr ''y''), (''2'', JStr ''z''), (''syncVersion'', JNum 1)]"

definition ex_wrapped_local :: json where
  "ex_wrapped_local =
     JObj [(''title'', JStr ''A''), (''data'', JObj [(''x'', JNum 1)]), (''syncVersion'', JNum 1)]"

definition ex_wrapped_remote :: json where
  "ex_wrapped_remote =
     JObj [(''title'', JStr ''B''), (''data'', JObj [(''x'', JNum 1)]), (''syncVersion'', JNum 2)]"

definition ex_proto_payload :: json where
  "ex_proto_payload = JObj [(''title'', JStr ''Menu''), (''__proto__'', JStr ''x'')]"

definition ex_update_fault :: faults where
  "ex_update_fault = no_faults\<lparr>conflict_update_fault := Some (Error ''connection lost'')\<rparr>"



section \<open>Verified properties\<close>

text \<open>The equations that evaluate the order of properties and the assignment loop on a
  given object.\<close>

lemma is_array_index_Nil: "\<not> is_array_index []"
  by (simp add: is_array_index_def)

lemma is_array_index_Cons:
  "is_array_index (c # cs) =
     (if is_digit c
      then (if c = CHR ''0'' then cs = []
            else list_all is_digit cs \<and> dec_value (c # cs) < 4294967295)
      else False)"
  by (auto simp: is_array_index_def dec_value_def)

lemmas order_eval =
  js_order_def is_array_index_Nil is_array_index_Cons is_digit_def dec_value_def

lemmas assign_eval = assign_all_def assign_def

subsection \<open>Redaction keeps the key\<close>

text \<open>
  C9. The claim: after redaction the payload contains no sensitive field at any nesting
  depth, the fields being removed by omission. The code assigns the marker
  \<^verbatim>\<open>'[REDACTED]'\<close> under the same key instead, so the key is still present in what goes
  to the bus: on \<^verbatim>\<open>{title: "Menu", password: "hunter2"}\<close> the result is
  \<^verbatim>\<open>{title: "Menu", password: "[REDACTED]"}\<close>, and an update of a document with a
  password on a replica enqueues an outbound entry whose data still has the key
  \<^verbatim>\<open>password\<close>.
\<close>

theorem stripSensitiveData_keeps_key:
  "stripSensitiveData (JObj [(''title'', JStr ''Menu''), (''password'', JStr ''hunter2'')])
     = JObj [(''title'', JStr ''Menu''), (''password'', JStr ''[REDACTED]'')]
   \<and> has_sensitive_key
        (stripSensitiveData (JObj [(''title'', JStr ''Menu''), (''password'', JStr ''hunter2'')]))
   \<and> snd (middleware (ex_env\<lparr>h_enqueue := (\<lambda>entry. Inr ())\<rparr>) ex_ctx (Inr ex_user_result))
       = [Call ''version-manager.incrementVersion''
            [JStr ''api::article.article'', JStr ''doc1'', JStr ''ship-1''] False,
          Call ''sync-queue.enqueue''
            [JObj [(''shipId'', JStr ''ship-1''), (''contentType'', JStr ''api::article.article''),
                   (''contentId'', JStr ''doc1''), (''operation'', JStr ''update''),
                   (''localVersion'', JNum 2),
                   (''data'', JObj [(''documentId'', JStr ''doc1''),
                                    (''password'', JStr ''[REDACTED]'')]),
                   (''locale'', JNull)]] False,
          LogEv Info ''[Sync] Queued update for api::article.article (doc1)'',
          Call ''offlineSyncPush'' [] False]"
  by (simp add: ex_env_def ex_ctx_def ex_user_result_def SENSITIVE_FIELDS_def
      middleware_def sync_logic_def replica_branch_def replica_body_def fetch_sync_data_def
      resolve_documentId_def string_prop_def nonempty_string_def get_prop_def is_array_def
      is_bulk_result_def operation_of_def locale_of_def locale_suffix_def or_else_def
      safe_data_def queue_entry_def trackedActions_def starts_with_def bind_def catch_def
      ret_def call_def log_ev_def message_of_def Let_def order_eval assign_eval)

subsection \<open>Conflict detection reports only direct conflicts\<close>

lemma get_prop_None_iff: "get_prop d k = None \<longleftrightarrow> k \<notin> set (object_keys d)"
  by (simp add: get_prop_def object_keys_def map_of_eq_None_iff)

lemma stringified_None_iff: "stringified d k = None \<longleftrightarrow> k \<notin> set (object_keys d)"
  by (simp add: stringified_def get_prop_None_iff)

lemma data_keys_iff:
  "k \<in> set (data_keys d) \<longleftrightarrow> k \<in> set (object_keys d) \<and> k \<notin> set excludeFields"
  by (auto simp: data_keys_def)

lemma conflict_fields_set:
  "set (changedFields a b @ onlyIn a b @ onlyIn b a)
     = {k \<in> set (data_keys a) \<union> set (data_keys b). stringified a k \<noteq> stringified b k}"
proof -
  have "stringified a k \<noteq> stringified b k"
    if "k \<in> set (data_keys a)" "k \<notin> set (data_keys b)" for k
    using that stringified_None_iff[of b k] stringified_None_iff[of a k] data_keys_iff by metis
  moreover have "stringified a k \<noteq> stringified b k"
    if "k \<in> set (data_keys b)" "k \<notin> set (data_keys a)" for k
    using that stringified_None_iff[of b k] stringified_None_iff[of a k] data_keys_iff by metis
  ultimately show ?thesis
    by (auto simp: changedFields_def onlyIn_def)
qed

lemmas conflict_eval =
  version_of_def data_of_def get_prop_def or_else_def changedFields_def onlyIn_def
  data_keys_def object_keys_def excludeFields_def stringified_def Let_def order_eval

text \<open>
  C3, as the claim states it, fails: a field present on one side only is reported with
  kind \<open>Direct\<close>, not \<open>Structural\<close>. Here the remote entity has the extra field
  \<^verbatim>\<open>subtitle\<close>, no common field differs, and the reported kind is \<open>Direct\<close>.
\<close>

theorem detectConflict_one_sided_is_direct:
  "detectConflict ex_local ex_remote
     = \<lparr>hasConflict = True, conflictingFields = Some [''subtitle''],
        conflictType = Some Direct\<rparr>
   \<and> changedFields (data_of ex_local) (data_of ex_remote) = []
   \<and> onlyIn (data_of ex_remote) (data_of ex_local) = [''subtitle'']"
  by (simp add: ex_local_def ex_remote_def detectConflict_def conflict_eval)

text \<open>
  C3, amended. \<open>detectConflict\<close> reports no conflict when either entity is missing
  (falsy), and compares the versions first: the version of an entity is its
  \<^verbatim>\<open>syncVersion\<close>, or 0 when that is missing or falsy (\<open>version_of\<close>), and equal versions
  give no conflict. The fields it then compares are not those of the entities themselves
  but those of the compared data of each side (\<open>data_of\<close>): the value of the entity's
  \<^verbatim>\<open>data\<close> property when that is truthy, and the entity itself otherwise. When both
  entities are present and the versions differ, the reported fields are the non-reserved
  fields common to the two compared data whose stringified values differ, followed by the
  non-reserved fields present only in the local one and those present only in the remote
  one, each group in the enumeration order of the keys: as a set, exactly the non-reserved
  fields of either compared data whose stringified values differ, an absent field counting
  as \<^verbatim>\<open>undefined\<close>. A conflict is reported when that list is non-empty, always with kind
  \<open>Direct\<close>; kind \<open>Structural\<close> is never reported.
\<close>

theorem detectConflict_direct_only:
  "(strict_eq (version_of l) (version_of r) \<longrightarrow> \<not> hasConflict (detectConflict l r))
   \<and> (\<not> (truthy l \<and> truthy r) \<longrightarrow> detectConflict l r = no_conflict)
   \<and> (truthy l \<and> truthy r \<and> \<not> strict_eq (version_of l) (version_of r) \<longrightarrow>
        detectConflict l r =
          (if changedFields (data_of l) (data_of r) @ onlyIn (data_of l) (data_of r)
                @ onlyIn (data_of r) (data_of l) = []
           then no_conflict
           else \<lparr>hasConflict = True,
                 conflictingFields =
                   Some (changedFields (data_of l) (data_of r) @ onlyIn (data_of l) (data_of r)
                         @ onlyIn (data_of r) (data_of l)),
                 conflictType = Some Direct\<rparr>))
   \<and> set (changedFields (data_of l) (data_of r) @ onlyIn (data_of l) (data_of r)
            @ onlyIn (data_of r) (data_of l))
       = {k \<in> set (data_keys (data_of l)) \<union> set (data_keys (data_of r)).
            stringified (data_of l) k \<noteq> stringified (data_of r) k}
   \<and> conflictType (detectConflict l r) \<noteq> Some Structural"
proof (intro conjI)
  show "strict_eq (version_of l) (version_of r) \<longrightarrow> \<not> hasConflict (detectConflict l r)"
    by (simp add: detectConflict_def no_conflict_def)
  show "\<not> (truthy l \<and> truthy r) \<longrightarrow> detectConflict l r = no_conflict"
    by (simp add: detectConflict_def)
  show "conflictType (detectConflict l r) \<noteq> Some Structural"
    by (simp add: detectConflict_def no_conflict_def Let_def)
  show "set (changedFields (data_of l) (data_of r) @ onlyIn (data_of l) (data_of r)
            @ onlyIn (data_of r) (data_of l))
       = {k \<in> set (data_keys (data_of l)) \<union> set (data_keys (data_of r)).
            stringified (data_of l) k \<noteq> stringified (data_of r) k}"
    by (rule conflict_fields_set)
  show "truthy l \<and> truthy r \<and> \<not> strict_eq (version_of l) (version_of r) \<longrightarrow>
        detectConflict l r =
          (if changedFields (data_of l) (data_of r) @ onlyIn (data_of l) (data_of r)
                @ onlyIn (data_of r) (data_of l) = []
           then no_conflict
           else \<lparr>hasConflict = True,
                 conflictingFields =
                   Some (changedFields (data_of l) (data_of r) @ onlyIn (data_of l) (data_of r)
                         @ onlyIn (data_of r) (data_of l)),
                 conflictType = Some Direct\<rparr>)"
    by (auto simp: detectConflict_def Let_def)
qed

theorem detectConflict_direct_only_witness:
  "strict_eq (version_of ex_local) (version_of ex_local)
   \<and> \<not> hasConflict (detectConflict ex_local ex_local)
   \<and> truthy ex_local \<and> truthy ex_remote
   \<and> \<not> strict_eq (version_of ex_local) (version_of ex_remote)
   \<and> detectConflict ex_local ex_remote
       = \<lparr>hasConflict = True, conflictingFields = Some [''subtitle''],
          conflictType = Some Direct\<rparr>
   \<and> \<not> truthy JNull \<and> detectConflict JNull ex_remote = no_conflict
   \<and> data_of ex_wrapped_local = JObj [(''x'', JNum 1)]
   \<and> data_of ex_wrapped_remote = JObj [(''x'', JNum 1)]
   \<and> \<not> strict_eq (version_of ex_wrapped_local) (version_of ex_wrapped_remote)
   \<and> detectConflict ex_wrapped_local ex_wrapped_remote = no_conflict
   \<and> detectConflict ex_numbered ex_remote
       = \<lparr>hasConflict = True,
          conflictingFields = Some [''2'', ''10'', ''b'', ''title'', ''subtitle''],
          conflictType = Some Direct\<rparr>"
proof -
  have wrapped: "data_of ex_wrapped_local = JObj [(''x'', JNum 1)]
      \<and> data_of ex_wrapped_remote = JObj [(''x'', JNum 1)]
      \<and> \<not> strict_eq (version_of ex_wrapped_local) (version_of ex_wrapped_remote)
      \<and> detectConflict ex_wrapped_local ex_wrapped_remote = no_conflict"
    by (simp add: ex_wrapped_local_def ex_wrapped_remote_def detectConflict_def conflict_eval)
  have numbered: "detectConflict ex_numbered ex_remote
       = \<lparr>hasConflict = True,
          conflictingFields = Some [''2'', ''10'', ''b'', ''title'', ''subtitle''],
          conflictType = Some Direct\<rparr>"
    by (simp add: ex_numbered_def ex_remote_def detectConflict_def conflict_eval)
  show ?thesis
    using detectConflict_direct_only [of ex_local ex_local]
          detectConflict_direct_only [of ex_local ex_remote]
          detectConflict_direct_only [of JNull ex_remote]
          wrapped numbered
    by (simp add: ex_local_def ex_remote_def conflict_eval)
qed

subsection \<open>URL rewriting there and back\<close>

lemma insort_key_map_keep:
  assumes "\<And>x. f (g x) = f' x"
  shows "insort_key f (g x) (map g ys) = map g (insort_key f' x ys)"
  using assms by (induction ys) auto

lemma sort_key_map_keep:
  assumes "\<And>x. f (g x) = f' x"
  shows "sort_key f (map g xs) = map g (sort_key f' xs)"
  using assms by (induction xs) (auto simp: insort_key_map_keep)

lemma js_order_map:
  assumes "\<And>kv. fst (g kv) = fst kv"
  shows "js_order (map g kvs) = map g (js_order kvs)"
proof -
  have "sort_key (\<lambda>kv. dec_value (fst kv)) (map g (filter (\<lambda>kv. is_array_index (fst kv)) kvs))
      = map g (sort_key (\<lambda>kv. dec_value (fst kv)) (filter (\<lambda>kv. is_array_index (fst kv)) kvs))"
    by (rule sort_key_map_keep) (simp add: assms)
  then show ?thesis
    by (simp add: js_order_def filter_map o_def assms)
qed

lemma obj_set_new: "k \<notin> fst ` set obj \<Longrightarrow> obj_set obj k v = obj @ [(k, v)]"
  by (induction obj) auto

lemma foldl_assign_distinct:
  "distinct (map fst (acc @ l)) \<Longrightarrow> ''__proto__'' \<notin> fst ` set l \<Longrightarrow> foldl assign acc l = acc @ l"
proof (induction l arbitrary: acc)
  case Nil
  then show ?case by simp
next
  case (Cons kv l)
  have "assign acc kv = acc @ [kv]"
    using Cons.prems by (cases kv) (auto simp: assign_def obj_set_new)
  then show ?case using Cons.IH[of "acc @ [kv]"] Cons.prems by simp
qed

lemma assign_all_distinct:
  "distinct (map fst l) \<Longrightarrow> ''__proto__'' \<notin> fst ` set l \<Longrightarrow> assign_all l = l"
  using foldl_assign_distinct[of "[]" l] by (simp add: assign_all_def)

lemma rebuild_same_keys:
  assumes "distinct (map fst kvs)" "js_order kvs = kvs" "''__proto__'' \<notin> set (map fst kvs)"
  shows "assign_all (js_order (map (\<lambda>kv. (fst kv, g kv)) kvs)) = map (\<lambda>kv. (fst kv, g kv)) kvs"
proof -
  have "js_order (map (\<lambda>kv. (fst kv, g kv)) kvs) = map (\<lambda>kv. (fst kv, g kv)) kvs"
    using js_order_map[of "\<lambda>kv. (fst kv, g kv)" kvs] assms(2) by simp
  moreover have "map fst (map (\<lambda>kv. (fst kv, g kv)) kvs) = map fst kvs"
    by (simp add: o_def)
  ultimately show ?thesis
    using assms(1,3) assign_all_distinct[of "map (\<lambda>kv. (fst kv, g kv)) kvs"]
    by (simp add: o_def image_image)
qed

lemma get_substitution_plain:
  "CHR 0x24 \<notin> set t \<Longrightarrow> get_substitution m b a t = t"
  by (induction m b a t rule: get_substitution.induct) auto

lemma replace_from_absent:
  "\<not> str_includes s p \<Longrightarrow> replace_from p t pre s = s"
  by (induction s arbitrary: pre) auto

lemma str_includes_prefix: "str_includes (p @ r) p"
proof (cases "p @ r")
  case Nil
  then show ?thesis by simp
next
  case (Cons c cs)
  have "starts_with (p @ r) p" by (simp add: starts_with_def)
  then show ?thesis using Cons by simp
qed

lemma replace_from_prefix:
  assumes "p \<noteq> []" "CHR 0x24 \<notin> set t" "\<not> str_includes r p"
  shows "replace_from p t pre (p @ r) = t @ r"
proof -
  obtain c cs where p: "p = c # cs" using assms(1) by (cases p) auto
  have "starts_with (c # (cs @ r)) p" by (simp add: starts_with_def p)
  moreover have "drop (length p - 1) (cs @ r) = r" by (simp add: p)
  ultimately show ?thesis
    using assms by (simp add: p get_substitution_plain replace_from_absent)
qed

lemma rewrite_string_round_trip:
  assumes "A \<noteq> []" "B \<noteq> []" "CHR 0x24 \<notin> set A" "CHR 0x24 \<notin> set B"
    and "url_under A B s \<or> mentions_neither A B s"
  shows "transformUrls (transformUrls (JStr s) A B mf d) B A mf d = JStr s"
proof (cases "d > 20")
  case True
  then show ?thesis by simp
next
  case False
  from assms(5) show ?thesis
  proof
    assume u: "url_under A B s"
    define r where "r = drop (length A) s"
    have s: "s = A @ r"
      using u by (metis append_take_drop_id r_def starts_with_def url_under_def)
    have r: "\<not> str_includes r A" "\<not> str_includes r B"
      using u by (simp_all add: url_under_def r_def)
    have 1: "replace_all s A B = B @ r"
      using assms r by (simp add: replace_all_def s replace_from_prefix)
    have 2: "replace_all (B @ r) B A = A @ r"
      using assms r by (simp add: replace_all_def replace_from_prefix)
    show ?thesis
      using False 1 2 s str_includes_prefix[of A r] str_includes_prefix[of B r] by simp
  next
    assume "mentions_neither A B s"
    then show ?thesis using False by (simp add: mentions_neither_def)
  qed
qed

text \<open>
  C8, as the claim states it, fails for a URL already under the target base \<open>B\<close>: the
  rewrite from \<open>A\<close> to \<open>B\<close> leaves it alone and the rewrite back moves it under \<open>A\<close>.
  It also fails for a payload with an own property named \<^verbatim>\<open>__proto__\<close> (which a parsed
  JSON text can have): one pass already drops that property, since assigning it to the
  fresh object creates no own property.
\<close>

theorem transformUrls_round_trip_loses_target_urls:
  "transformUrls (transformUrls ex_replica_payload ex_oss ex_minio [] 0) ex_minio ex_oss [] 0
     = JObj [(''url'', JStr ''https://oss.example/new.png'')]
   \<and> transformUrls (transformUrls ex_replica_payload ex_oss ex_minio [] 0) ex_minio ex_oss [] 0
     \<noteq> ex_replica_payload
   \<and> transformUrls ex_proto_payload ex_oss ex_minio [] 0 = JObj [(''title'', JStr ''Menu'')]"
  by (simp add: ex_replica_payload_def ex_proto_payload_def ex_oss_def ex_minio_def
      replace_all_def starts_with_def order_eval assign_eval)

text \<open>
  C8, amended. Let \<open>A\<close> and \<open>B\<close> be non-empty bases without a dollar sign (which the
  replacement text of \<^verbatim>\<open>String.prototype.replace\<close> would interpret), let every string
  of the payload be either a URL under \<open>A\<close> (\<open>A\<close> followed by a remainder that
  mentions neither base) or a string that mentions neither base, and let no object of the
  payload have an own property named \<^verbatim>\<open>__proto__\<close>. Then rewriting from \<open>A\<close> to \<open>B\<close>
  and back from \<open>B\<close> to \<open>A\<close> returns the payload, at every starting depth; values
  nested deeper than the bound of 20 are returned untouched by both passes. The payload is
  taken in canonical form (each object lists its keys once, in enumeration order), which
  is how the rewrite returns it.
\<close>

theorem transformUrls_round_trip:
  assumes "A \<noteq> []" "B \<noteq> []" "CHR 0x24 \<notin> set A" "CHR 0x24 \<notin> set B"
    and "only_urls_under A B x" "canonical x" "no_proto_key x"
  shows "transformUrls (transformUrls x A B mf d) B A mf d = x"
  using assms(5-7)
proof (induction x arbitrary: d)
  case (JStr s)
  then show ?case using assms(1-4) rewrite_string_round_trip by simp
next
  case (JArr xs)
  then show ?case by (auto simp: list_all_iff intro!: map_idI)
next
  case (JObj kvs)
  show ?case
  proof (cases "d > 20")
    case True
    then show ?thesis by simp
  next
    case False
    have k: "distinct (map fst kvs)" "js_order kvs = kvs" "''__proto__'' \<notin> set (map fst kvs)"
      using JObj.prems by simp_all
    have s: "snd kv \<in> Basic_BNFs.snds kv" for kv :: "string \<times> json"
      by (cases kv) simp
    have ih: "transformUrls (transformUrls (snd kv) A B mf (d + 1)) B A mf (d + 1) = snd kv"
      if "kv \<in> set kvs" for kv
      using JObj.IH[OF that s[of kv]] JObj.prems that by (simp add: list_all_iff)
    have 1: "transformUrls (JObj kvs) A B mf d
        = JObj (map (\<lambda>kv. (fst kv, transformUrls (snd kv) A B mf (d + 1))) kvs)"
      using False rebuild_same_keys[OF k] by simp
    have 2: "transformUrls (JObj (map (\<lambda>kv. (fst kv, transformUrls (snd kv) A B mf (d + 1))) kvs))
          B A mf d
        = JObj (map (\<lambda>kv. (fst kv,
                  transformUrls (transformUrls (snd kv) A B mf (d + 1)) B A mf (d + 1))) kvs)"
      using False
        rebuild_same_keys[OF k,
          of "\<lambda>kv. transformUrls (transformUrls (snd kv) A B mf (d + 1)) B A mf (d + 1)"]
      by (simp add: o_def)
    have "map (\<lambda>kv. (fst kv,
                  transformUrls (transformUrls (snd kv) A B mf (d + 1)) B A mf (d + 1))) kvs = kvs"
    proof (rule map_idI)
      fix kv assume "kv \<in> set kvs"
      then have "transformUrls (transformUrls (snd kv) A B mf (d + 1)) B A mf (d + 1) = snd kv"
        by (rule ih)
      then show "(fst kv,
          transformUrls (transformUrls (snd kv) A B mf (d + 1)) B A mf (d + 1)) = kv"
        by (simp add: prod_eq_iff)
    qed
    then show ?thesis using 1 2 by simp
  qed
qed simp_all

theorem transformUrls_round_trip_witness:
  "ex_oss \<noteq> [] \<and> ex_minio \<noteq> [] \<and> CHR 0x24 \<notin> set ex_oss \<and> CHR 0x24 \<notin> set ex_minio
   \<and> only_urls_under ex_oss ex_minio ex_master_payload
   \<and> canonical ex_master_payload \<and> no_proto_key ex_master_payload
   \<and> transformUrls ex_master_payload ex_oss ex_minio [] 0
       = JObj [(''title'', JStr ''Menu''),
               (''cover'', JObj [(''url'', JStr ''http://minio.local/media/img.jpg'')]),
               (''gallery'', JArr [JStr ''http://minio.local/media/a.png'', JNum 2])]
   \<and> transformUrls (transformUrls ex_master_payload ex_oss ex_minio [] 0) ex_minio ex_oss [] 0
       = ex_master_payload"
proof -
  have h: "ex_oss \<noteq> []" "ex_minio \<noteq> []" "CHR 0x24 \<notin> set ex_oss" "CHR 0x24 \<notin> set ex_minio"
    by (simp_all add: ex_oss_def ex_minio_def)
  have p: "only_urls_under ex_oss ex_minio ex_master_payload"
    by (simp add: ex_master_payload_def ex_oss_def ex_minio_def url_under_def
        mentions_neither_def starts_with_def)
  have c: "canonical ex_master_payload" "no_proto_key ex_master_payload"
    by (simp_all add: ex_master_payload_def order_eval)
  have e: "transformUrls ex_master_payload ex_oss ex_minio [] 0
       = JObj [(''title'', JStr ''Menu''),
               (''cover'', JObj [(''url'', JStr ''http://minio.local/media/img.jpg'')]),
               (''gallery'', JArr [JStr ''http://minio.local/media/a.png'', JNum 2])]"
    by (simp add: ex_master_payload_def ex_oss_def ex_minio_def replace_all_def starts_with_def
        order_eval assign_eval)
  show ?thesis
    using h p c e transformUrls_round_trip [OF h p c, of "[]" 0] by simp
qed

subsection \<open>The outbound queue keeps one pending row per key\<close>

lemma update_first_keeps:
  assumes "\<And>r. g (f r) = g r" "\<And>r. Q (f r) = Q r"
  shows "map g (filter Q (update_first P f rs)) = map g (filter Q rs)"
  using assms by (induction rs) auto







subsection \<open>A detected conflict is logged and not applied\<close>

lemma find_snoc_new: "find P rs = None \<Longrightarrow> P x \<Longrightarrow> find P (rs @ [x]) = Some x"
  by (induction rs) (auto split: if_splits)

lemma find_update_first_same:
  "find P rs = Some x \<Longrightarrow> P (f x) \<Longrightarrow> find P (update_first P f rs) = Some (f x)"
  by (induction rs) (auto split: if_splits)

lemma find_update_first_id:
  assumes "distinct (map idf rs)" "find P rs = Some x" "\<And>r. P (f r) = P r"
  shows "find P (update_first (\<lambda>r. idf r = idf x) f rs) = Some (f x)"
  using assms(1,2)
proof (induction rs)
  case Nil
  then show ?case by simp
next
  case (Cons r rs)
  show ?case
  proof (cases "P r")
    case True
    with Cons.prems have "x = r" by simp
    then show ?thesis using True assms(3) by simp
  next
    case False
    with Cons.prems have f: "find P rs = Some x" and d: "distinct (map idf rs)" by simp_all
    then have "x \<in> set rs" by (auto simp: find_Some_iff)
    with Cons.prems have "idf r \<noteq> idf x" by auto
    then show ?thesis using False Cons.IH[OF d f] assms(3) by simp
  qed
qed

lemma flagConflict_frame:
  "entities (flagConflict ct eid l r fs k st) = entities st"
  "cms_writes (flagConflict ct eid l r fs k st) = cms_writes st"
  "sync_metadata (flagConflict ct eid l r fs k st) = sync_metadata st"
  "next_entity_id (flagConflict ct eid l r fs k st) = next_entity_id st"
  by (simp_all add: flagConflict_def Let_def split: option.splits)

lemma flagConflict_pending_row:
  assumes "distinct (map c_id (conflict_log st))"
  shows "\<exists>row. find (pending_conflict_for ct eid) (conflict_log (flagConflict ct eid l r fs k st))
            = Some row
         \<and> c_localData row = l \<and> c_remoteData row = r \<and> c_conflictingFields row = fs
         \<and> c_conflictType row = (case k of None \<Rightarrow> Direct | Some k' \<Rightarrow> k')"
proof (cases "find (pending_conflict_for ct eid) (conflict_log st)")
  case None
  then show ?thesis
    by (simp add: flagConflict_def Let_def find_snoc_new pending_conflict_for_def)
next
  case (Some existing)
  have "find (pending_conflict_for ct eid)
          (update_first (\<lambda>r. c_id r = c_id existing)
             (\<lambda>ro. ro\<lparr>c_localData := l, c_remoteData := r, c_conflictingFields := fs,
                       c_conflictType := (case k of None \<Rightarrow> Direct | Some k' \<Rightarrow> k')\<rparr>)
             (conflict_log st))
        = Some (existing\<lparr>c_localData := l, c_remoteData := r, c_conflictingFields := fs,
                       c_conflictType := (case k of None \<Rightarrow> Direct | Some k' \<Rightarrow> k')\<rparr>)"
    using assms Some by (rule find_update_first_id) (simp add: pending_conflict_for_def)
  then show ?thesis using Some by (simp add: flagConflict_def Let_def)
qed

lemma flagConflict_keeps_invariant:
  assumes "one_pending_conflict (conflict_log st)"
  shows "one_pending_conflict (conflict_log (flagConflict ct eid l r fs k st))"
proof (cases "find (pending_conflict_for ct eid) (conflict_log st)")
  case None
  then have "\<forall>r \<in> set (conflict_log st).
      c_status r = C_pending \<longrightarrow> conflict_key r \<noteq> (ct, eid)"
    by (auto simp: find_None_iff pending_conflict_for_def conflict_key_def)
  then have "(ct, eid)
      \<notin> set (map conflict_key (filter (\<lambda>r. c_status r = C_pending) (conflict_log st)))"
    by auto
  then show ?thesis
    using assms None
    by (simp add: flagConflict_def one_pending_conflict_def conflict_key_def Let_def)
next
  case (Some existing)
  have "map conflict_key (filter (\<lambda>r. c_status r = C_pending)
          (update_first (\<lambda>r. c_id r = c_id existing)
             (\<lambda>ro. ro\<lparr>c_localData := l, c_remoteData := r, c_conflictingFields := fs,
                       c_conflictType := (case k of None \<Rightarrow> Direct | Some k' \<Rightarrow> k')\<rparr>)
             (conflict_log st)))
        = map conflict_key (filter (\<lambda>r. c_status r = C_pending) (conflict_log st))"
    by (rule update_first_keeps) (simp_all add: conflict_key_def)
  then show ?thesis
    using assms Some by (simp add: flagConflict_def one_pending_conflict_def Let_def)
qed

lemmas store_eval =
  ex_store_def ex_entity_def ex_meta_def ex_orphan_meta_def ex_change_def
  ex_orphan_update_def entity_findOne_def getMetadata_def metadata_for_def

text \<open>
  C2. A remote change arrives for an entity that exists locally with sync metadata, and
  \<open>detectConflict\<close> reports a conflict (conflict-log ids being unique). Then \<open>applyChange\<close>
  returns \<open>True\<close>; the CMS entities are unchanged and no CMS write is made; the conflict
  log has a pending row for the content type and entity id that carries the local entity,
  the remote data, the conflicting fields and kind \<open>Direct\<close>; a conflict log with at most
  one pending row per key stays so; and the entity's metadata row has status
  \<open>S_conflict\<close> and its conflict flag set, the rest of the row as before.
\<close>

theorem applyChange_conflict_not_applied:
  assumes known: "ch_contentType ch \<in> set (content_types st)"
    and ent: "entity_findOne st (ch_contentType ch) (ch_entityId ch) = Some e" "truthy e"
    and meta: "getMetadata st (ch_contentType ch) (ch_entityId ch) = Some m"
    and conf: "hasConflict (detectConflict (with_version e (m_syncVersion m))
                 (with_version (ch_data ch) (ch_version ch)))"
    and ids: "distinct (map c_id (conflict_log st))"
  shows "fst (applyChange now ch Remote st) = True
    \<and> entities (snd (applyChange now ch Remote st)) = entities st
    \<and> cms_writes (snd (applyChange now ch Remote st)) = cms_writes st
    \<and> (\<exists>row. find (pending_conflict_for (ch_contentType ch) (ch_entityId ch))
                 (conflict_log (snd (applyChange now ch Remote st))) = Some row
          \<and> c_localData row = e \<and> c_remoteData row = ch_data ch
          \<and> Some (c_conflictingFields row)
              = conflictingFields (detectConflict (with_version e (m_syncVersion m))
                  (with_version (ch_data ch) (ch_version ch)))
          \<and> c_conflictType row = Direct)
    \<and> (one_pending_conflict (conflict_log st)
          \<longrightarrow> one_pending_conflict (conflict_log (snd (applyChange now ch Remote st))))
    \<and> getMetadata (snd (applyChange now ch Remote st)) (ch_contentType ch) (ch_entityId ch)
        = Some (m\<lparr>m_syncStatus := S_conflict, m_conflictFlag := True\<rparr>)"
proof -
  let ?c = "detectConflict (with_version e (m_syncVersion m))
              (with_version (ch_data ch) (ch_version ch))"
  let ?fs = "case conflictingFields ?c of None \<Rightarrow> [] | Some fs \<Rightarrow> fs"
  let ?st1 = "flagConflict (ch_contentType ch) (ch_entityId ch) e (ch_data ch) ?fs
                (conflictType ?c) st"
  let ?g = "\<lambda>r. r\<lparr>m_syncStatus := S_conflict, m_conflictFlag := True\<rparr>"
  have res: "applyChange now ch Remote st
      = (True, ?st1\<lparr>sync_metadata :=
                  update_first (metadata_for (ch_contentType ch) (ch_entityId ch)) ?g
                    (sync_metadata ?st1)\<rparr>)"
    using known ent meta conf by (simp add: applyChange_def Let_def)
  have kind: "conflictType ?c = Some Direct" "conflictingFields ?c = Some ?fs"
    using conf by (auto simp: detectConflict_def Let_def no_conflict_def split: if_splits)
  from flagConflict_pending_row
         [OF ids, of "ch_contentType ch" "ch_entityId ch" e "ch_data ch" ?fs "conflictType ?c"]
  obtain row where row: "find (pending_conflict_for (ch_contentType ch) (ch_entityId ch))
        (conflict_log ?st1) = Some row" "c_localData row = e" "c_remoteData row = ch_data ch"
      "c_conflictingFields row = ?fs" "c_conflictType row = Direct"
    using kind(1) by auto
  have m': "find (metadata_for (ch_contentType ch) (ch_entityId ch))
              (update_first (metadata_for (ch_contentType ch) (ch_entityId ch)) ?g
                 (sync_metadata st))
            = Some (?g m)"
    using meta by (intro find_update_first_same)
      (auto simp: getMetadata_def metadata_for_def find_Some_iff)
  show ?thesis
    unfolding res
    using row kind(2) m' flagConflict_keeps_invariant[of st]
    by (simp add: flagConflict_frame getMetadata_def)
qed

theorem applyChange_conflict_not_applied_witness:
  "ch_contentType ex_change \<in> set (content_types ex_store)
   \<and> entity_findOne ex_store (ch_contentType ex_change) (ch_entityId ex_change) = Some ex_entity
   \<and> truthy ex_entity
   \<and> getMetadata ex_store (ch_contentType ex_change) (ch_entityId ex_change) = Some ex_meta
   \<and> detectConflict (with_version ex_entity (m_syncVersion ex_meta))
        (with_version (ch_data ex_change) (ch_version ex_change))
       = \<lparr>hasConflict = True, conflictingFields = Some [''title''],
          conflictType = Some Direct\<rparr>
   \<and> distinct (map c_id (conflict_log ex_store))
   \<and> one_pending_conflict (conflict_log ex_store)
   \<and> fst (applyChange 1000 ex_change Remote ex_store) = True
   \<and> entities (snd (applyChange 1000 ex_change Remote ex_store)) = entities ex_store
   \<and> cms_writes (snd (applyChange 1000 ex_change Remote ex_store)) = []
   \<and> one_pending_conflict (conflict_log (snd (applyChange 1000 ex_change Remote ex_store)))
   \<and> getMetadata (snd (applyChange 1000 ex_change Remote ex_store))
        (ch_contentType ex_change) (ch_entityId ex_change)
       = Some (ex_meta\<lparr>m_syncStatus := S_conflict, m_conflictFlag := True\<rparr>)"
proof -
  have known: "ch_contentType ex_change \<in> set (content_types ex_store)"
    by (simp add: store_eval)
  have ent: "entity_findOne ex_store (ch_contentType ex_change) (ch_entityId ex_change)
      = Some ex_entity" "truthy ex_entity"
    by (simp_all add: store_eval)
  have meta: "getMetadata ex_store (ch_contentType ex_change) (ch_entityId ex_change)
      = Some ex_meta"
    by (simp add: store_eval)
  have det: "detectConflict (with_version ex_entity (m_syncVersion ex_meta))
        (with_version (ch_data ex_change) (ch_version ex_change))
       = \<lparr>hasConflict = True, conflictingFields = Some [''title''],
          conflictType = Some Direct\<rparr>"
    by (simp add: ex_entity_def ex_meta_def ex_change_def with_version_def detectConflict_def
        conflict_eval quote_def escape_char_def)
  then have conf: "hasConflict (detectConflict (with_version ex_entity (m_syncVersion ex_meta))
        (with_version (ch_data ex_change) (ch_version ex_change)))"
    by simp
  have ids: "distinct (map c_id (conflict_log ex_store))"
    "one_pending_conflict (conflict_log ex_store)"
    by (simp_all add: ex_store_def one_pending_conflict_def)
  show ?thesis
    using applyChange_conflict_not_applied [OF known ent meta conf ids(1), of 1000]
      known ent meta det ids
    by (simp add: ex_store_def)
qed

subsection \<open>A dropped update is still marked synced\<close>

text \<open>
  C5. The claim: a remote update whose target entity is absent locally is dropped with a
  warning and without a CMS write, and \<open>markSynced\<close> is called only after a successful
  apply, so that a dropped change leaves the entity's sync metadata unmarked. The first
  half holds; the second does not. \<open>applyChange\<close> calls \<open>markSynced\<close> after the
  \<^verbatim>\<open>switch\<close> whether or not anything was applied, although \<open>markSynced\<close> is documented as
  the update of the metadata "after successful sync" and although the other skip of the
  same function, for an unknown content type, returns before it. Entity 9 is absent and
  has a pending metadata row; the remote update for it is dropped with the warning, no CMS
  write is made, and the row comes back with status synced and \<open>lastSyncedAt\<close> set.
\<close>

theorem applyChange_dropped_update_marks_synced:
  "entity_findOne ex_store (ch_contentType ex_orphan_update) (ch_entityId ex_orphan_update)
     = None
   \<and> ch_operation ex_orphan_update = ''update''
   \<and> getMetadata ex_store (ch_contentType ex_orphan_update) (ch_entityId ex_orphan_update)
       = Some ex_orphan_meta
   \<and> m_syncStatus ex_orphan_meta = S_pending
   \<and> m_lastSyncedAt ex_orphan_meta = None
   \<and> applyChange 1000 ex_orphan_update Remote ex_store
       = (False,
          ex_store\<lparr>sync_metadata :=
                      [ex_meta,
                       ex_orphan_meta\<lparr>m_lastSyncedAt := Some 1000, m_syncStatus := S_synced\<rparr>],
                    logged :=
                      [(Warn,
                        ''Entity api::article.article:9 not found for update, skipping'')]\<rparr>)
   \<and> cms_writes (snd (applyChange 1000 ex_orphan_update Remote ex_store)) = []
   \<and> getMetadata (snd (applyChange 1000 ex_orphan_update Remote ex_store))
        (ch_contentType ex_orphan_update) (ch_entityId ex_orphan_update)
       = Some (ex_orphan_meta\<lparr>m_lastSyncedAt := Some 1000, m_syncStatus := S_synced\<rparr>)
   \<and> applyChange 1000 (ex_orphan_update\<lparr>ch_contentType := ''api::ghost.ghost''\<rparr>) Remote
        (ex_store\<lparr>sync_metadata :=
                    [ex_orphan_meta\<lparr>m_contentType := ''api::ghost.ghost''\<rparr>]\<rparr>)
       = (False,
          ex_store\<lparr>sync_metadata := [ex_orphan_meta\<lparr>m_contentType := ''api::ghost.ghost''\<rparr>],
                    logged :=
                      [(Warn, ''Content type api::ghost.ghost not found, skipping change'')]\<rparr>)"
  by (simp add: store_eval applyChange_def apply_and_mark_def apply_operation_def
      markSynced_def log_line_def present_def show_nat.simps Let_def)

subsection \<open>Manual resolution: which errors leave the store alone\<close>

lemma final_data_None_iff:
  "final_data resolution md c = None
     \<longleftrightarrow> resolution \<notin> {''keep_local'', ''keep_remote'', ''merge''}"
  by (simp add: final_data_def)

lemma find_id_None_iff:
  "find (\<lambda>r. c_id r = conflictId) rows = None \<longleftrightarrow> conflictId \<notin> set (map c_id rows)"
  by (auto simp: find_None_iff)

lemma write_entity_answers:
  assumes "entity_write_fault io = None"
  shows "\<exists>st1. write_entity io ct eid resolution fd st = Inr st1
           \<and> write_entity no_faults ct eid resolution fd st = Inr st1
           \<and> conflict_log st1 = conflict_log st \<and> sync_metadata st1 = sync_metadata st"
  using assms
  by (simp add: write_entity_def no_faults_def entity_create_def entity_update_def Let_def)

lemma write_entity_frame:
  assumes "write_entity io ct eid resolution fd st = Inr st1"
  shows "conflict_log st1 = conflict_log st"
  using assms
  by (auto simp: write_entity_def entity_create_def entity_update_def Let_def
      split: if_splits option.splits)

lemma markSynced_frame:
  "entities (markSynced now ct eid s) = entities s"
  "cms_writes (markSynced now ct eid s) = cms_writes s"
  "conflict_log (markSynced now ct eid s) = conflict_log s"
  by (simp_all add: markSynced_def split: option.splits)

text \<open>A request is refused for one of the three reasons, whatever the later calls do.\<close>

lemma resolveConflict_refused:
  assumes "conflict_findOne_fault io = None"
    and "conflictId \<notin> set (map c_id (conflict_log st))
        \<or> (\<exists>c. find (\<lambda>r. c_id r = conflictId) (conflict_log st) = Some c
                \<and> c_status c = C_resolved)
        \<or> resolution \<notin> {''keep_local'', ''keep_remote'', ''merge''}"
  shows "isl (fst (resolveConflict io conflictId resolution mergedData resolvedBy now st))"
    and "snd (resolveConflict io conflictId resolution mergedData resolvedBy now st) = st"
  using assms find_id_None_iff[of conflictId "conflict_log st"]
    final_data_None_iff[of resolution mergedData]
  by (auto simp: resolveConflict_def split: option.splits)

text \<open>A request that is not refused has a pending conflict row and a final data.\<close>

lemma accepted_request:
  assumes "\<not> (conflictId \<notin> set (map c_id (conflict_log st))
        \<or> (\<exists>c. find (\<lambda>r. c_id r = conflictId) (conflict_log st) = Some c
                \<and> c_status c = C_resolved)
        \<or> resolution \<notin> {''keep_local'', ''keep_remote'', ''merge''})"
  obtains c fd where "find (\<lambda>r. c_id r = conflictId) (conflict_log st) = Some c"
    "c_status c \<noteq> C_resolved" "final_data resolution mergedData c = Some fd"
proof -
  from assms obtain c where c: "find (\<lambda>r. c_id r = conflictId) (conflict_log st) = Some c"
    using find_id_None_iff[of conflictId "conflict_log st"]
    by (cases "find (\<lambda>r. c_id r = conflictId) (conflict_log st)") auto
  with assms have p: "c_status c \<noteq> C_resolved" by auto
  from assms obtain fd where "final_data resolution mergedData c = Some fd"
    using final_data_None_iff[of resolution mergedData c]
    by (cases "final_data resolution mergedData c") auto
  with c p that show thesis by blast
qed

lemma no_faults_simps:
  "conflict_findOne_fault no_faults = None" "entity_findOne_fault no_faults = None"
  "entity_write_fault no_faults = None" "conflict_update_fault no_faults = None"
  "markSynced_fault no_faults = None"
  by (simp_all add: no_faults_def)

lemma resolveConflict_raises_iff:
  "isl (fst (resolveConflict no_faults conflictId resolution mergedData resolvedBy now st))
     = (conflictId \<notin> set (map c_id (conflict_log st))
        \<or> (\<exists>c. find (\<lambda>r. c_id r = conflictId) (conflict_log st) = Some c
                \<and> c_status c = C_resolved)
        \<or> resolution \<notin> {''keep_local'', ''keep_remote'', ''merge''})"
proof (cases "conflictId \<notin> set (map c_id (conflict_log st))
        \<or> (\<exists>c. find (\<lambda>r. c_id r = conflictId) (conflict_log st) = Some c
                \<and> c_status c = C_resolved)
        \<or> resolution \<notin> {''keep_local'', ''keep_remote'', ''merge''}")
  case True
  then show ?thesis
    using resolveConflict_refused(1)[OF no_faults_simps(1), of conflictId st resolution]
    by simp
next
  case False
  from accepted_request[OF False, of mergedData] obtain c fd where
    c: "find (\<lambda>r. c_id r = conflictId) (conflict_log st) = Some c"
      "c_status c \<noteq> C_resolved" "final_data resolution mergedData c = Some fd"
    by blast
  from write_entity_answers[OF no_faults_simps(3), of "c_contentType c" "c_entityId c" resolution fd st]
  obtain st1 where "write_entity no_faults (c_contentType c) (c_entityId c) resolution fd st = Inr st1"
    by blast
  then show ?thesis using c False by (simp add: resolveConflict_def no_faults_simps)
qed

lemma resolveConflict_error_keeps_log:
  "isl (fst (resolveConflict io conflictId resolution mergedData resolvedBy now st))
        \<Longrightarrow> markSynced_fault io = None
        \<Longrightarrow> conflict_log
              (snd (resolveConflict io conflictId resolution mergedData resolvedBy now st))
            = conflict_log st"
  by (auto simp: resolveConflict_def Let_def write_entity_frame
      split: option.splits sum.splits if_splits)

lemma resolveConflict_error_keeps_store:
  "isl (fst (resolveConflict io conflictId resolution mergedData resolvedBy now st))
        \<Longrightarrow> conflict_update_fault io = None \<Longrightarrow> markSynced_fault io = None
        \<Longrightarrow> snd (resolveConflict io conflictId resolution mergedData resolvedBy now st) = st"
  by (auto simp: resolveConflict_def Let_def split: option.splits sum.splits if_splits)

lemma resolveConflict_late_fault:
  assumes "\<not> isl (fst (resolveConflict no_faults conflictId resolution mergedData resolvedBy now st))"
    and "conflict_findOne_fault io = None" "entity_findOne_fault io = None"
      "entity_write_fault io = None"
  shows "conflict_update_fault io = Some e \<Longrightarrow>
      fst (resolveConflict io conflictId resolution mergedData resolvedBy now st) = Inl e
            \<and> entities
                 (snd (resolveConflict io conflictId resolution mergedData resolvedBy now st))
               = entities
                   (snd (resolveConflict no_faults conflictId resolution mergedData resolvedBy
                           now st))
            \<and> cms_writes
                 (snd (resolveConflict io conflictId resolution mergedData resolvedBy now st))
               = cms_writes
                   (snd (resolveConflict no_faults conflictId resolution mergedData resolvedBy
                           now st))
            \<and> conflict_log
                 (snd (resolveConflict io conflictId resolution mergedData resolvedBy now st))
               = conflict_log st
            \<and> sync_metadata
                 (snd (resolveConflict io conflictId resolution mergedData resolvedBy now st))
               = sync_metadata st"
    and "conflict_update_fault io = None \<Longrightarrow> markSynced_fault io = Some e \<Longrightarrow>
      fst (resolveConflict io conflictId resolution mergedData resolvedBy now st) = Inl e
            \<and> entities
                 (snd (resolveConflict io conflictId resolution mergedData resolvedBy now st))
               = entities
                   (snd (resolveConflict no_faults conflictId resolution mergedData resolvedBy
                           now st))
            \<and> cms_writes
                 (snd (resolveConflict io conflictId resolution mergedData resolvedBy now st))
               = cms_writes
                   (snd (resolveConflict no_faults conflictId resolution mergedData resolvedBy
                           now st))
            \<and> conflict_log
                 (snd (resolveConflict io conflictId resolution mergedData resolvedBy now st))
               = conflict_log
                   (snd (resolveConflict no_faults conflictId resolution mergedData resolvedBy
                           now st))
            \<and> sync_metadata
                 (snd (resolveConflict io conflictId resolution mergedData resolvedBy now st))
               = sync_metadata st"
proof -
  from assms(1) have "\<not> (conflictId \<notin> set (map c_id (conflict_log st))
        \<or> (\<exists>c. find (\<lambda>r. c_id r = conflictId) (conflict_log st) = Some c
                \<and> c_status c = C_resolved)
        \<or> resolution \<notin> {''keep_local'', ''keep_remote'', ''merge''})"
    using resolveConflict_raises_iff by blast
  from accepted_request[OF this, of mergedData] obtain c fd where
    c: "find (\<lambda>r. c_id r = conflictId) (conflict_log st) = Some c"
      "c_status c \<noteq> C_resolved" "final_data resolution mergedData c = Some fd"
    by blast
  from write_entity_answers[OF assms(4), of "c_contentType c" "c_entityId c" resolution fd st]
  obtain st1 where w: "write_entity io (c_contentType c) (c_entityId c) resolution fd st = Inr st1"
    "write_entity no_faults (c_contentType c) (c_entityId c) resolution fd st = Inr st1"
    "conflict_log st1 = conflict_log st" "sync_metadata st1 = sync_metadata st"
    by blast
  show "conflict_update_fault io = Some e \<Longrightarrow>
      fst (resolveConflict io conflictId resolution mergedData resolvedBy now st) = Inl e
            \<and> entities
                 (snd (resolveConflict io conflictId resolution mergedData resolvedBy now st))
               = entities
                   (snd (resolveConflict no_faults conflictId resolution mergedData resolvedBy
                           now st))
            \<and> cms_writes
                 (snd (resolveConflict io conflictId resolution mergedData resolvedBy now st))
               = cms_writes
                   (snd (resolveConflict no_faults conflictId resolution mergedData resolvedBy
                           now st))
            \<and> conflict_log
                 (snd (resolveConflict io conflictId resolution mergedData resolvedBy now st))
               = conflict_log st
            \<and> sync_metadata
                 (snd (resolveConflict io conflictId resolution mergedData resolvedBy now st))
               = sync_metadata st"
    using c w assms(2,3)
    by (simp add: resolveConflict_def no_faults_simps markSynced_frame Let_def)
  show "conflict_update_fault io = None \<Longrightarrow> markSynced_fault io = Some e \<Longrightarrow>
      fst (resolveConflict io conflictId resolution mergedData resolvedBy now st) = Inl e
            \<and> entities
                 (snd (resolveConflict io conflictId resolution mergedData resolvedBy now st))
               = entities
                   (snd (resolveConflict no_faults conflictId resolution mergedData resolvedBy
                           now st))
            \<and> cms_writes
                 (snd (resolveConflict io conflictId resolution mergedData resolvedBy now st))
               = cms_writes
                   (snd (resolveConflict no_faults conflictId resolution mergedData resolvedBy
                           now st))
            \<and> conflict_log
                 (snd (resolveConflict io conflictId resolution mergedData resolvedBy now st))
               = conflict_log
                   (snd (resolveConflict no_faults conflictId resolution mergedData resolvedBy
                           now st))
            \<and> sync_metadata
                 (snd (resolveConflict io conflictId resolution mergedData resolvedBy now st))
               = sync_metadata st"
    using c w assms(2,3)
    by (simp add: resolveConflict_def no_faults_simps markSynced_frame Let_def)
qed

lemmas conflict_store_eval =
  ex_conflict_store_def ex_pending_conflict_def ex_resolved_conflict_def ex_store_def
  ex_entity_def ex_meta_def ex_orphan_meta_def

lemmas resolve_eval =
  resolveConflict_def write_entity_def final_data_def entity_findOne_def present_def
  entity_update_def merge_fields_def markSynced_def metadata_for_def no_faults_def
  ex_update_fault_def Let_def order_eval

text \<open>
  C10, as the claim states it, fails: \<open>resolveConflict\<close> also raises when one of its
  database or CMS calls rejects, and the calls that mark the conflict resolved and the
  metadata synced come after the write of the entity. Conflict 1 is pending, its entity
  exists and the resolution \<^verbatim>\<open>keep_remote\<close> is valid; the update of the conflict row
  rejects. The error is raised although none of the three conditions holds, the CMS entity
  has been updated with the remote data, and the conflict is still pending.
\<close>

theorem resolveConflict_fails_after_write:
  "find (\<lambda>r. c_id r = 1) (conflict_log ex_conflict_store) = Some ex_pending_conflict
   \<and> c_status ex_pending_conflict = C_pending
   \<and> entity_findOne ex_conflict_store ''api::article.article'' 5
       = Some (JObj [(''id'', JNum 5), (''title'', JStr ''B'')])
   \<and> resolveConflict ex_update_fault 1 ''keep_remote'' None (Some 7) 2000 ex_conflict_store
       = (Inl (Error ''connection lost''),
          ex_conflict_store
            \<lparr>entities :=
               [((''api::article.article'', 5), JObj [(''id'', JNum 5), (''title'', JStr ''A'')])],
             cms_writes :=
               [CmsUpdate ''api::article.article'' 5 (JObj [(''title'', JStr ''A'')])]\<rparr>)
   \<and> conflict_log
        (snd (resolveConflict ex_update_fault 1 ''keep_remote'' None (Some 7) 2000
                ex_conflict_store))
       = [ex_pending_conflict, ex_resolved_conflict]"
  by (simp add: conflict_store_eval resolve_eval)

text \<open>
  C10, amended. When every database and CMS call answers, \<open>resolveConflict\<close> raises an
  error exactly when no conflict row has the given id, or the row with that id is already
  resolved, or the resolution is none of \<^verbatim>\<open>keep_local\<close>, \<^verbatim>\<open>keep_remote\<close>, \<^verbatim>\<open>merge\<close>, and
  then the whole store is as before. Whatever the later calls would do, once the lookup of
  the conflict row has answered, each of these three conditions raises an error and leaves
  the whole store as before: no CMS entity is created or updated, no CMS write is made and
  the conflict row is unchanged. A lookup of the conflict row that rejects raises its
  error with the store as before. \<open>resolveConflict\<close> also raises when a later call
  rejects. Every error raised while the update of the conflict row and \<open>markSynced\<close>
  answer leaves the whole store as before, and every error raised while \<open>markSynced\<close>
  answers leaves the conflict log as before. The other errors are not atomic. When the
  update of the conflict row rejects, after lookups and a write of the entity that
  answered, the error is raised with the entities and the CMS writes of the successful
  run, the conflict log and the metadata as before. When \<open>markSynced\<close> rejects, the error
  is raised with the entities, the CMS writes and the conflict log of the successful run
  (the conflict is marked resolved), the metadata as before.
\<close>

theorem resolveConflict_errors:
  "isl (fst (resolveConflict no_faults conflictId resolution mergedData resolvedBy now st))
     = (conflictId \<notin> set (map c_id (conflict_log st))
        \<or> (\<exists>c. find (\<lambda>r. c_id r = conflictId) (conflict_log st) = Some c
                \<and> c_status c = C_resolved)
        \<or> resolution \<notin> {''keep_local'', ''keep_remote'', ''merge''})
   \<and> (isl (fst (resolveConflict no_faults conflictId resolution mergedData resolvedBy now st))
        \<longrightarrow> snd (resolveConflict no_faults conflictId resolution mergedData resolvedBy now st)
              = st)
   \<and> (conflict_findOne_fault io = None
        \<and> (conflictId \<notin> set (map c_id (conflict_log st))
             \<or> (\<exists>c. find (\<lambda>r. c_id r = conflictId) (conflict_log st) = Some c
                     \<and> c_status c = C_resolved)
             \<or> resolution \<notin> {''keep_local'', ''keep_remote'', ''merge''})
        \<longrightarrow> isl (fst (resolveConflict io conflictId resolution mergedData resolvedBy now st))
            \<and> snd (resolveConflict io conflictId resolution mergedData resolvedBy now st) = st)
   \<and> (conflict_findOne_fault io = Some e
        \<longrightarrow> resolveConflict io conflictId resolution mergedData resolvedBy now st = (Inl e, st))
   \<and> (isl (fst (resolveConflict io conflictId resolution mergedData resolvedBy now st))
        \<and> conflict_update_fault io = None \<and> markSynced_fault io = None
        \<longrightarrow> snd (resolveConflict io conflictId resolution mergedData resolvedBy now st) = st)
   \<and> (isl (fst (resolveConflict io conflictId resolution mergedData resolvedBy now st))
        \<and> markSynced_fault io = None
        \<longrightarrow> conflict_log
              (snd (resolveConflict io conflictId resolution mergedData resolvedBy now st))
            = conflict_log st)
   \<and> (\<not> isl (fst (resolveConflict no_faults conflictId resolution mergedData resolvedBy now st))
        \<and> conflict_findOne_fault io = None \<and> entity_findOne_fault io = None
        \<and> entity_write_fault io = None \<and> conflict_update_fault io = Some e
        \<longrightarrow> fst (resolveConflict io conflictId resolution mergedData resolvedBy now st) = Inl e
            \<and> entities
                 (snd (resolveConflict io conflictId resolution mergedData resolvedBy now st))
               = entities
                   (snd (resolveConflict no_faults conflictId resolution mergedData resolvedBy
                           now st))
            \<and> cms_writes
                 (snd (resolveConflict io conflictId resolution mergedData resolvedBy now st))
               = cms_writes
                   (snd (resolveConflict no_faults conflictId resolution mergedData resolvedBy
                           now st))
            \<and> conflict_log
                 (snd (resolveConflict io conflictId resolution mergedData resolvedBy now st))
               = conflict_log st
            \<and> sync_metadata
                 (snd (resolveConflict io conflictId resolution mergedData resolvedBy now st))
               = sync_metadata st)
   \<and> (\<not> isl (fst (resolveConflict no_faults conflictId resolution mergedData resolvedBy now st))
        \<and> conflict_findOne_fault io = None \<and> entity_findOne_fault io = None
        \<and> entity_write_fault io = None \<and> conflict_update_fault io = None
        \<and> markSynced_fault io = Some e
        \<longrightarrow> fst (resolveConflict io conflictId resolution mergedData resolvedBy now st) = Inl e
            \<and> entities
                 (snd (resolveConflict io conflictId resolution mergedData resolvedBy now st))
               = entities
                   (snd (resolveConflict no_faults conflictId resolution mergedData resolvedBy
                           now st))
            \<and> cms_writes
                 (snd (resolveConflict io conflictId resolution mergedData resolvedBy now st))
               = cms_writes
                   (snd (resolveConflict no_faults conflictId resolution mergedData resolvedBy
                           now st))
            \<and> conflict_log
                 (snd (resolveConflict io conflictId resolution mergedData resolvedBy now st))
               = conflict_log
                   (snd (resolveConflict no_faults conflictId resolution mergedData resolvedBy
                           now st))
            \<and> sync_metadata
                 (snd (resolveConflict io conflictId resolution mergedData resolvedBy now st))
               = sync_metadata st)"
proof (intro conjI impI)
  show "isl (fst (resolveConflict no_faults conflictId resolution mergedData resolvedBy now st))
     = (conflictId \<notin> set (map c_id (conflict_log st))
        \<or> (\<exists>c. find (\<lambda>r. c_id r = conflictId) (conflict_log st) = Some c
                \<and> c_status c = C_resolved)
        \<or> resolution \<notin> {''keep_local'', ''keep_remote'', ''merge''})"
    by (rule resolveConflict_raises_iff)
  show "snd (resolveConflict no_faults conflictId resolution mergedData resolvedBy now st) = st"
    if "isl (fst (resolveConflict no_faults conflictId resolution mergedData resolvedBy now st))"
    using that resolveConflict_raises_iff[of conflictId resolution mergedData resolvedBy now st]
      resolveConflict_refused(2)[OF no_faults_simps(1), of conflictId st resolution]
    by blast
next
  assume a: "conflict_findOne_fault io = None
        \<and> (conflictId \<notin> set (map c_id (conflict_log st))
             \<or> (\<exists>c. find (\<lambda>r. c_id r = conflictId) (conflict_log st) = Some c
                     \<and> c_status c = C_resolved)
             \<or> resolution \<notin> {''keep_local'', ''keep_remote'', ''merge''})"
  show "isl (fst (resolveConflict io conflictId resolution mergedData resolvedBy now st))"
    using a resolveConflict_refused(1)[of io conflictId st resolution] by blast
  show "snd (resolveConflict io conflictId resolution mergedData resolvedBy now st) = st"
    using a resolveConflict_refused(2)[of io conflictId st resolution] by blast
next
  assume "conflict_findOne_fault io = Some e"
  then show "resolveConflict io conflictId resolution mergedData resolvedBy now st = (Inl e, st)"
    by (simp add: resolveConflict_def)
next
  assume "isl (fst (resolveConflict io conflictId resolution mergedData resolvedBy now st))
        \<and> conflict_update_fault io = None \<and> markSynced_fault io = None"
  then show "snd (resolveConflict io conflictId resolution mergedData resolvedBy now st) = st"
    using resolveConflict_error_keeps_store by blast
next
  assume "isl (fst (resolveConflict io conflictId resolution mergedData resolvedBy now st))
        \<and> markSynced_fault io = None"
  then show "conflict_log
              (snd (resolveConflict io conflictId resolution mergedData resolvedBy now st))
            = conflict_log st"
    using resolveConflict_error_keeps_log by blast
next
  assume a: "\<not> isl (fst (resolveConflict no_faults conflictId resolution mergedData resolvedBy now st))
        \<and> conflict_findOne_fault io = None \<and> entity_findOne_fault io = None
        \<and> entity_write_fault io = None \<and> conflict_update_fault io = Some e"
  then have r: "fst (resolveConflict io conflictId resolution mergedData resolvedBy now st) = Inl e
            \<and> entities
                 (snd (resolveConflict io conflictId resolution mergedData resolvedBy now st))
               = entities
                   (snd (resolveConflict no_faults conflictId resolution mergedData resolvedBy
                           now st))
            \<and> cms_writes
                 (snd (resolveConflict io conflictId resolution mergedData resolvedBy now st))
               = cms_writes
                   (snd (resolveConflict no_faults conflictId resolution mergedData resolvedBy
                           now st))
            \<and> conflict_log
                 (snd (resolveConflict io conflictId resolution mergedData resolvedBy now st))
               = conflict_log st
            \<and> sync_metadata
                 (snd (resolveConflict io conflictId resolution mergedData resolvedBy now st))
               = sync_metadata st"
    using resolveConflict_late_fault(1)[of conflictId resolution mergedData resolvedBy now st io e]
    by blast
  from r show "fst (resolveConflict io conflictId resolution mergedData resolvedBy now st) = Inl e"
    by blast
  from r show "entities
                 (snd (resolveConflict io conflictId resolution mergedData resolvedBy now st))
               = entities
                   (snd (resolveConflict no_faults conflictId resolution mergedData resolvedBy
                           now st))"
    by blast
  from r show "cms_writes
                 (snd (resolveConflict io conflictId resolution mergedData resolvedBy now st))
               = cms_writes
                   (snd (resolveConflict no_faults conflictId resolution mergedData resolvedBy
                           now st))"
    by blast
  from r show "conflict_log
                 (snd (resolveConflict io conflictId resolution mergedData resolvedBy now st))
               = conflict_log st"
    by blast
  from r show "sync_metadata
                 (snd (resolveConflict io conflictId resolution mergedData resolvedBy now st))
               = sync_metadata st"
    by blast
next
  assume a: "\<not> isl (fst (resolveConflict no_faults conflictId resolution mergedData resolvedBy now st))
        \<and> conflict_findOne_fault io = None \<and> entity_findOne_fault io = None
        \<and> entity_write_fault io = None \<and> conflict_update_fault io = None
        \<and> markSynced_fault io = Some e"
  then have r: "fst (resolveConflict io conflictId resolution mergedData resolvedBy now st) = Inl e
            \<and> entities
                 (snd (resolveConflict io conflictId resolution mergedData resolvedBy now st))
               = entities
                   (snd (resolveConflict no_faults conflictId resolution mergedData resolvedBy
                           now st))
            \<and> cms_writes
                 (snd (resolveConflict io conflictId resolution mergedData resolvedBy now st))
               = cms_writes
                   (snd (resolveConflict no_faults conflictId resolution mergedData resolvedBy
                           now st))
            \<and> conflict_log
                 (snd (resolveConflict io conflictId resolution mergedData resolvedBy now st))
               = conflict_log
                   (snd (resolveConflict no_faults conflictId resolution mergedData resolvedBy
                           now st))
            \<and> sync_metadata
                 (snd (resolveConflict io conflictId resolution mergedData resolvedBy now st))
               = sync_metadata st"
    using resolveConflict_late_fault(2)[of conflictId resolution mergedData resolvedBy now st io e]
    by blast
  from r show "fst (resolveConflict io conflictId resolution mergedData resolvedBy now st) = Inl e"
    by blast
  from r show "entities
                 (snd (resolveConflict io conflictId resolution mergedData resolvedBy now st))
               = entities
                   (snd (resolveConflict no_faults conflictId resolution mergedData resolvedBy
                           now st))"
    by blast
  from r show "cms_writes
                 (snd (resolveConflict io conflictId resolution mergedData resolvedBy now st))
               = cms_writes
                   (snd (resolveConflict no_faults conflictId resolution mergedData resolvedBy
                           now st))"
    by blast
  from r show "conflict_log
                 (snd (resolveConflict io conflictId resolution mergedData resolvedBy now st))
               = conflict_log
                   (snd (resolveConflict no_faults conflictId resolution mergedData resolvedBy
                           now st))"
    by blast
  from r show "sync_metadata
                 (snd (resolveConflict io conflictId resolution mergedData resolvedBy now st))
               = sync_metadata st"
    by blast
qed

theorem resolveConflict_errors_witness:
  "resolveConflict no_faults 3 ''merge'' None (Some 7) 2000 ex_conflict_store
     = (Inl (Error ''Conflict not found or already resolved''), ex_conflict_store)
   \<and> conflict_findOne_fault ex_update_fault = None
   \<and> resolveConflict ex_update_fault 2 ''merge'' None (Some 7) 2000 ex_conflict_store
     = (Inl (Error ''Conflict not found or already resolved''), ex_conflict_store)
   \<and> resolveConflict ex_update_fault 1 ''keep'' None (Some 7) 2000 ex_conflict_store
     = (Inl (Error ''Invalid resolution: keep''), ex_conflict_store)
   \<and> resolveConflict (no_faults\<lparr>conflict_findOne_fault := Some ThrownNull\<rparr>)
        1 ''keep_remote'' None (Some 7) 2000 ex_conflict_store
     = (Inl ThrownNull, ex_conflict_store)
   \<and> fst (resolveConflict no_faults 1 ''keep_remote'' None (Some 7) 2000 ex_conflict_store)
     = Inr ()
   \<and> cms_writes
        (snd (resolveConflict no_faults 1 ''keep_remote'' None (Some 7) 2000 ex_conflict_store))
     = [CmsUpdate ''api::article.article'' 5 (JObj [(''title'', JStr ''A'')])]
   \<and> entity_findOne_fault ex_update_fault = None \<and> entity_write_fault ex_update_fault = None
   \<and> conflict_update_fault ex_update_fault = Some (Error ''connection lost'')
   \<and> markSynced_fault ex_update_fault = None
   \<and> fst (resolveConflict ex_update_fault 1 ''keep_remote'' None (Some 7) 2000
             ex_conflict_store)
     = Inl (Error ''connection lost'')
   \<and> cms_writes
        (snd (resolveConflict ex_update_fault 1 ''keep_remote'' None (Some 7) 2000
                ex_conflict_store))
     = [CmsUpdate ''api::article.article'' 5 (JObj [(''title'', JStr ''A'')])]
   \<and> conflict_log
        (snd (resolveConflict ex_update_fault 1 ''keep_remote'' None (Some 7) 2000
                ex_conflict_store))
     = conflict_log ex_conflict_store
   \<and> fst (resolveConflict (no_faults\<lparr>markSynced_fault := Some (Error ''timeout'')\<rparr>)
             1 ''keep_remote'' None (Some 7) 2000 ex_conflict_store)
     = Inl (Error ''timeout'')
   \<and> map c_status
        (conflict_log
           (snd (resolveConflict (no_faults\<lparr>markSynced_fault := Some (Error ''timeout'')\<rparr>)
                   1 ''keep_remote'' None (Some 7) 2000 ex_conflict_store)))
     = [C_resolved, C_resolved]"
  using resolveConflict_errors
          [of 3 "''merge''" None "Some 7" 2000 ex_conflict_store no_faults ThrownNull]
        resolveConflict_errors
          [of 2 "''merge''" None "Some 7" 2000 ex_conflict_store ex_update_fault ThrownNull]
        resolveConflict_errors
          [of 1 "''keep''" None "Some 7" 2000 ex_conflict_store ex_update_fault ThrownNull]
        resolveConflict_errors
          [of 1 "''keep_remote''" None "Some 7" 2000 ex_conflict_store
              "no_faults\<lparr>conflict_findOne_fault := Some ThrownNull\<rparr>" ThrownNull]
        resolveConflict_errors
          [of 1 "''keep_remote''" None "Some 7" 2000 ex_conflict_store ex_update_fault
              "Error ''connection lost''"]
        resolveConflict_errors
          [of 1 "''keep_remote''" None "Some 7" 2000 ex_conflict_store
              "no_faults\<lparr>markSynced_fault := Some (Error ''timeout'')\<rparr>" "Error ''timeout''"]
  by (simp add: conflict_store_eval resolve_eval)

subsection \<open>A peer is online while it was seen within its threshold\<close>

lemma update_first_by_id:
  "distinct (map idf rs) \<Longrightarrow>
     update_first (\<lambda>r. idf r = i) f rs = map (\<lambda>r. if idf r = i then f r else r) rs"
proof (induction rs)
  case Nil
  then show ?case by simp
next
  case (Cons r rs)
  show ?case
  proof (cases "idf r = i")
    case True
    from Cons.prems have "idf r \<notin> idf ` set rs" by simp
    with True have "\<forall>x \<in> set rs. idf x \<noteq> i" by blast
    then have "map (\<lambda>r. if idf r = i then f r else r) rs = rs"
      by (intro map_idI) simp
    then show ?thesis using True by simp
  next
    case False
    then show ?thesis using Cons by simp
  qed
qed

lemma mark_offline_fold:
  assumes "distinct (map s_id tbl)"
  shows "foldl (mark_offline_step now) tbl xs
     = map (\<lambda>r. if s_id r \<in> s_id ` {x \<in> set xs. timeSinceLastSeen now x \<ge> threshold_of x}
                 then r\<lparr>s_isOnline := False\<rparr> else r) tbl"
  using assms
proof (induction xs arbitrary: tbl)
  case Nil
  then show ?case by (simp add: map_idI)
next
  case (Cons x xs)
  let ?t = "mark_offline_step now tbl x"
  have ids: "map s_id ?t = map s_id tbl"
    using Cons.prems by (simp add: mark_offline_step_def update_first_by_id o_def)
  then have d: "distinct (map s_id ?t)" using Cons.prems by simp
  show ?case
    using Cons.IH[OF d] Cons.prems
    by (auto simp: mark_offline_step_def update_first_by_id)
qed

lemma markOfflineShips_map:
  assumes "distinct (map s_id sessions)"
  shows "markOfflineShips now sessions
     = map (\<lambda>s. if s_isOnline s \<and> timeSinceLastSeen now s \<ge> threshold_of s
                 then s\<lparr>s_isOnline := False\<rparr> else s) sessions"
proof -
  have "(s_id r \<in> s_id ` {x \<in> set (filter s_isOnline sessions).
            timeSinceLastSeen now x \<ge> threshold_of x})
        \<longleftrightarrow> (s_isOnline r \<and> timeSinceLastSeen now r \<ge> threshold_of r)"
    if "r \<in> set sessions" for r
  proof
    assume "s_id r \<in> s_id ` {x \<in> set (filter s_isOnline sessions).
            timeSinceLastSeen now x \<ge> threshold_of x}"
    then obtain x where x: "x \<in> set sessions" "s_isOnline x"
      "timeSinceLastSeen now x \<ge> threshold_of x" "s_id x = s_id r" by auto
    then have "x = r" using assms that by (meson distinct_map inj_onD)
    then show "s_isOnline r \<and> timeSinceLastSeen now r \<ge> threshold_of r" using x by simp
  next
    assume "s_isOnline r \<and> timeSinceLastSeen now r \<ge> threshold_of r"
    then show "s_id r \<in> s_id ` {x \<in> set (filter s_isOnline sessions).
            timeSinceLastSeen now x \<ge> threshold_of x}"
      using that by auto
  qed
  then show ?thesis
    unfolding markOfflineShips_def mark_offline_fold[OF assms]
    by (intro map_cong) auto
qed

text \<open>
  C7, as the claim states it, fails for a session whose stored \<^verbatim>\<open>onlineThreshold\<close> is 0:
  the code reads the threshold as \<^verbatim>\<open>session.onlineThreshold || 300000\<close>, so a stored 0
  means five minutes. The peer below was last seen 1 ms ago; \<open>now - lastSeenAt < 0\<close> is
  false, and yet it is reported online and stored as online, and \<open>markOfflineShips\<close>
  leaves it online although its \<open>lastSeenAt\<close> is at least \<^verbatim>\<open>onlineThreshold\<close> old.
\<close>

theorem isShipOnline_zero_threshold_is_default:
  "s_onlineThreshold ex_zero_session = Some 0
   \<and> \<not> (1000001 - s_lastSeenAt ex_zero_session < 0)
   \<and> isShipOnline 1000001 ''ship-9'' [ex_zero_session]
       = (True, [ex_zero_session\<lparr>s_isOnline := True\<rparr>])
   \<and> 1000001 - s_lastSeenAt ex_zero_session \<ge> 0
   \<and> markOfflineShips 1000001 [ex_zero_session\<lparr>s_isOnline := True\<rparr>]
       = [ex_zero_session\<lparr>s_isOnline := True\<rparr>]"
  by (simp add: ex_zero_session_def isShipOnline_def markOfflineShips_def mark_offline_step_def
      threshold_of_def timeSinceLastSeen_def Let_def)

text \<open>
  C7, amended. The threshold of a session is the stored \<^verbatim>\<open>onlineThreshold\<close> when one is
  stored and it is not 0, and 300000 ms when none is stored or 0 is stored. A peer without
  a stored session is reported offline and nothing is written. A peer with a stored
  session is reported online exactly when \<open>now - lastSeenAt\<close> is below that threshold;
  after \<open>isShipOnline\<close> the stored session carries the status just computed (session ids
  being unique). \<open>markOfflineShips\<close> sets to offline exactly the sessions that are online
  and whose \<open>lastSeenAt\<close> is at least that threshold old, so that afterwards no session
  that old is online.
\<close>

theorem ship_online_iff_seen_recently:
  "(s_onlineThreshold session = Some t \<and> t \<noteq> 0 \<longrightarrow> threshold_of session = t)
   \<and> (s_onlineThreshold session = None \<or> s_onlineThreshold session = Some 0 \<longrightarrow>
        threshold_of session = 300000)
   \<and> (find (\<lambda>s. s_shipId s = shipId) sessions = None \<longrightarrow>
      isShipOnline now shipId sessions = (False, sessions))
   \<and> (find (\<lambda>s. s_shipId s = shipId) sessions = Some session \<longrightarrow>
        fst (isShipOnline now shipId sessions)
          = (now - s_lastSeenAt session < threshold_of session))
   \<and> (distinct (map s_id sessions) \<and> find (\<lambda>s. s_shipId s = shipId) sessions = Some session
        \<longrightarrow> find (\<lambda>s. s_shipId s = shipId) (snd (isShipOnline now shipId sessions))
              = Some (session\<lparr>s_isOnline := (now - s_lastSeenAt session < threshold_of session)\<rparr>))
   \<and> (distinct (map s_id sessions) \<longrightarrow>
        markOfflineShips now sessions
          = map (\<lambda>s. if s_isOnline s \<and> now - s_lastSeenAt s \<ge> threshold_of s
                      then s\<lparr>s_isOnline := False\<rparr> else s) sessions)
   \<and> (distinct (map s_id sessions) \<longrightarrow>
        (\<forall>s \<in> set (markOfflineShips now sessions).
           now - s_lastSeenAt s \<ge> threshold_of s \<longrightarrow> \<not> s_isOnline s))"
proof (intro conjI impI)
  show "threshold_of session = t" if "s_onlineThreshold session = Some t \<and> t \<noteq> 0"
    using that by (simp add: threshold_of_def)
  show "threshold_of session = 300000"
    if "s_onlineThreshold session = None \<or> s_onlineThreshold session = Some 0"
    using that by (auto simp: threshold_of_def)
  show "isShipOnline now shipId sessions = (False, sessions)"
    if "find (\<lambda>s. s_shipId s = shipId) sessions = None"
    using that by (simp add: isShipOnline_def)
  show "fst (isShipOnline now shipId sessions)
          = (now - s_lastSeenAt session < threshold_of session)"
    if "find (\<lambda>s. s_shipId s = shipId) sessions = Some session"
    using that by (simp add: isShipOnline_def Let_def timeSinceLastSeen_def)
  show "find (\<lambda>s. s_shipId s = shipId) (snd (isShipOnline now shipId sessions))
          = Some (session\<lparr>s_isOnline := (now - s_lastSeenAt session < threshold_of session)\<rparr>)"
    if h: "distinct (map s_id sessions) \<and> find (\<lambda>s. s_shipId s = shipId) sessions = Some session"
  proof (cases "s_isOnline session = (now - s_lastSeenAt session < threshold_of session)")
    case True
    then have "session\<lparr>s_isOnline := (now - s_lastSeenAt session < threshold_of session)\<rparr>
        = session" by simp
    then show ?thesis
      using h True by (simp add: isShipOnline_def Let_def timeSinceLastSeen_def)
  next
    case False
    have "find (\<lambda>s. s_shipId s = shipId)
            (update_first (\<lambda>r. s_id r = s_id session)
               (\<lambda>r. r\<lparr>s_isOnline := (now - s_lastSeenAt session < threshold_of session)\<rparr>)
               sessions)
          = Some (session\<lparr>s_isOnline := (now - s_lastSeenAt session < threshold_of session)\<rparr>)"
      using h by (intro find_update_first_id) simp_all
    then show ?thesis
      using h False by (simp add: isShipOnline_def Let_def timeSinceLastSeen_def)
  qed
  show m: "markOfflineShips now sessions
          = map (\<lambda>s. if s_isOnline s \<and> now - s_lastSeenAt s \<ge> threshold_of s
                      then s\<lparr>s_isOnline := False\<rparr> else s) sessions"
    if "distinct (map s_id sessions)"
    using markOfflineShips_map[OF that, of now] by (simp add: timeSinceLastSeen_def)
  show "\<forall>s \<in> set (markOfflineShips now sessions).
           now - s_lastSeenAt s \<ge> threshold_of s \<longrightarrow> \<not> s_isOnline s"
    if "distinct (map s_id sessions)"
    unfolding m[OF that] by (auto simp: threshold_of_def)
qed

theorem ship_online_iff_seen_recently_witness:
  "distinct (map s_id ex_sessions)
   \<and> find (\<lambda>s. s_shipId s = ''ship-3'') ex_sessions = None
   \<and> isShipOnline 1300000 ''ship-3'' ex_sessions = (False, ex_sessions)
   \<and> find (\<lambda>s. s_shipId s = ''ship-1'') ex_sessions = Some (ex_sessions ! 0)
   \<and> isShipOnline 1300000 ''ship-1'' ex_sessions
       = (False, [(ex_sessions ! 0)\<lparr>s_isOnline := False\<rparr>, ex_sessions ! 1])
   \<and> isShipOnline 1299999 ''ship-1'' ex_sessions = (True, ex_sessions)
   \<and> isShipOnline 1300000 ''ship-2'' ex_sessions
       = (True, [ex_sessions ! 0, (ex_sessions ! 1)\<lparr>s_isOnline := True\<rparr>])
   \<and> markOfflineShips 1300000 ex_sessions
       = [(ex_sessions ! 0)\<lparr>s_isOnline := False\<rparr>, ex_sessions ! 1]
   \<and> s_onlineThreshold (ex_sessions ! 0) = Some 300000
   \<and> threshold_of (ex_sessions ! 0) = 300000
   \<and> s_onlineThreshold (ex_sessions ! 1) = None
   \<and> threshold_of (ex_sessions ! 1) = 300000
   \<and> s_onlineThreshold ((ex_sessions ! 1)\<lparr>s_onlineThreshold := Some 60000\<rparr>) = Some 60000
   \<and> threshold_of ((ex_sessions ! 1)\<lparr>s_onlineThreshold := Some 60000\<rparr>) = 60000"
  using ship_online_iff_seen_recently
          [where shipId = "''ship-3''" and sessions = ex_sessions and now = 1300000
             and session = "ex_sessions ! 0" and t = 300000]
        ship_online_iff_seen_recently
          [where shipId = "''ship-1''" and sessions = ex_sessions and now = 1300000
             and session = "ex_sessions ! 0" and t = 300000]
        ship_online_iff_seen_recently
          [where shipId = "''ship-2''" and sessions = ex_sessions and now = 1300000
             and session = "ex_sessions ! 1" and t = 300000]
        ship_online_iff_seen_recently
          [where shipId = "''ship-2''" and sessions = ex_sessions and now = 1300000
             and session = "(ex_sessions ! 1)\<lparr>s_onlineThreshold := Some 60000\<rparr>"
             and t = 60000]
  by (simp add: ex_sessions_def isShipOnline_def threshold_of_def timeSinceLastSeen_def
      Let_def)

subsection \<open>The middleware never fails a successful CMS operation\<close>

lemma roe_ret: "returns_or_errors result (ret (Some result))"
  by (simp add: returns_or_errors_def ret_def)

lemma roe_log: "returns_or_errors result (bind (log_ev l s) (\<lambda>_. ret (Some result)))"
  by (simp add: returns_or_errors_def bind_def log_ev_def ret_def)

lemma roe_guarded:
  "returns_or_errors result
     (bind (catch body (\<lambda>e. bind (message_of e) (\<lambda>msg. log_ev lvl (h msg))))
        (\<lambda>_. ret None))"
  by (auto simp: returns_or_errors_def catch_def bind_def message_of_def log_ev_def ret_def
      split: sum.splits thrown.splits)

lemma roe_replica:
  "returns_or_errors result (replica_branch env action uid d operation sd loc result)"
  unfolding replica_branch_def
  by (cases "h_fromMaster env") (simp_all only: if_True if_False roe_log roe_guarded)

lemma roe_master:
  "returns_or_errors result (master_branch env uid d operation sd loc result)"
  unfolding master_branch_def
  by (cases "h_fromShip env") (simp_all only: if_True if_False roe_log roe_guarded)

lemma fetch_sync_data_total: "\<exists>sd. fst (fetch_sync_data env action uid d result) = Inr sd"
  by (auto simp: fetch_sync_data_def catch_def call_def ret_def split: sum.splits)

lemma roe_fetch:
  assumes "\<And>sd. returns_or_errors result (g sd)"
  shows "returns_or_errors result (bind (fetch_sync_data env action uid d result) g)"
proof -
  obtain sd where "fst (fetch_sync_data env action uid d result) = Inr sd"
    using fetch_sync_data_total by blast
  then show ?thesis using assms[of sd] by (simp add: bind_def returns_or_errors_def)
qed

lemma roe_sync_logic: "returns_or_errors result (sync_logic env ctx result)"
  unfolding sync_logic_def Let_def
  by (auto split: option.splits sync_mode.splits
      intro!: roe_ret roe_log roe_fetch roe_replica roe_master)

lemma middleware_result: "fst (middleware env ctx (Inr result)) = Inr result"
proof (cases "ctx_uid ctx = [] \<or> starts_with (ctx_uid ctx) ''plugin::''
         \<or> starts_with (ctx_uid ctx) ''admin::''")
  case True
  then show ?thesis by (auto simp: middleware_def)
next
  case False
  from roe_sync_logic[of result env ctx]
  consider "fst (sync_logic env ctx result) = Inr (Some result)"
    | "fst (sync_logic env ctx result) = Inr None"
    | m where "fst (sync_logic env ctx result) = Inl (Error m)"
    by (auto simp: returns_or_errors_def split: sum.splits option.splits thrown.splits)
  then show ?thesis
    using False
    by cases (auto simp: middleware_def bind_def catch_def message_of_def log_ev_def ret_def)
qed

lemma failures_logged_append:
  "failures_logged ex xs \<Longrightarrow> failures_logged ex ys \<Longrightarrow> failures_logged ex (xs @ ys)"
proof (induction ex xs rule: failures_logged.induct)
  case (2 exempt ev)
  then show ?case by (cases ys) simp_all
qed simp_all

lemma failures_logged_caught:
  "failures_logged ex pre \<Longrightarrow> reports_failure l \<Longrightarrow> failures_logged ex (l # rest)
     \<Longrightarrow> failures_logged ex (pre @ c # l # rest)"
proof (induction ex pre rule: failures_logged.induct)
  case (2 exempt ev)
  then show ?case by simp
qed simp_all

lemma failures_logged_after_throw:
  assumes "threw_last tr" "failures_logged ex (butlast tr)" "reports_failure l"
    "failures_logged ex (l # rest)"
  shows "failures_logged ex (tr @ l # rest)"
proof -
  from assms(1) have "tr = butlast tr @ [last tr]" by (simp add: threw_last_def)
  then have e: "tr @ l # rest = butlast tr @ last tr # l # rest"
    by (metis append.assoc append_Cons append_Nil)
  show ?thesis
    unfolding e by (rule failures_logged_caught[OF assms(2,3,4)])
qed

lemma tidy_ret: "tidy ex (ret x)"
  by (simp add: tidy_def ret_def)

lemma tidy_log: "tidy ex (log_ev l s)"
  by (simp add: tidy_def log_ev_def is_failure_def)

lemma tidy_call: "tidy ex (call name args outcome)"
  by (cases outcome) (simp_all add: tidy_def call_def is_failure_def threw_last_def)

lemma tidy_bind:
  assumes m: "tidy ex m" and f: "\<And>x. tidy ex (f x)"
  shows "tidy ex (bind m f)"
proof (cases "fst m")
  case (Inl e)
  then show ?thesis using m by (simp add: tidy_def bind_def)
next
  case (Inr x)
  show ?thesis
  proof (cases "fst (f x)")
    case r: (Inr y)
    then show ?thesis
      using Inr m f[of x] by (simp add: tidy_def bind_def failures_logged_append)
  next
    case l: (Inl e)
    then have t: "snd (f x) \<noteq> []" using f[of x] by (simp add: tidy_def threw_last_def)
    then have "butlast (snd m @ snd (f x)) = snd m @ butlast (snd (f x))"
      "last (snd m @ snd (f x)) = last (snd (f x))"
      by (simp_all add: butlast_append)
    then show ?thesis
      using Inr l m f[of x] t
      by (simp add: tidy_def bind_def threw_last_def failures_logged_append)
  qed
qed

text \<open>A handler that logs the message of what it caught, at debug or error level.\<close>

lemma tidy_catch_log:
  assumes "tidy ex m" "lvl = Debug \<or> lvl = Err"
  shows "tidy ex (catch m (\<lambda>e. bind (message_of e) (\<lambda>msg. log_ev lvl (h msg))))"
proof (cases "fst m")
  case (Inr x)
  then show ?thesis using assms(1) by (simp add: catch_def)
next
  case (Inl e)
  then have t: "threw_last (snd m)" "failures_logged ex (butlast (snd m))"
    using assms(1) by (simp_all add: tidy_def)
  have "failures_logged ex (snd m @ LogEv lvl s # [])" for s
    using t assms(2)
    by (intro failures_logged_after_throw) (simp_all add: reports_failure_def is_failure_def)
  then show ?thesis
    using Inl t
    by (cases e)
       (simp_all add: tidy_def catch_def bind_def message_of_def log_ev_def ret_def)
qed

lemma tidy_catch_log_ret:
  assumes "tidy ex m" "lvl = Debug \<or> lvl = Err"
  shows "tidy ex (catch m (\<lambda>e. bind (message_of e)
                                   (\<lambda>msg. bind (log_ev lvl (h msg)) (\<lambda>_. ret v))))"
proof (cases "fst m")
  case (Inr x)
  then show ?thesis using assms(1) by (simp add: catch_def)
next
  case (Inl e)
  then have t: "threw_last (snd m)" "failures_logged ex (butlast (snd m))"
    using assms(1) by (simp_all add: tidy_def)
  have "failures_logged ex (snd m @ LogEv lvl s # [])" for s
    using t assms(2)
    by (intro failures_logged_after_throw) (simp_all add: reports_failure_def is_failure_def)
  then show ?thesis
    using Inl t
    by (cases e)
       (simp_all add: tidy_def catch_def bind_def message_of_def log_ev_def ret_def)
qed

text \<open>The fetch of the full document is made by a publish only, and its failure is the
  one that is caught without a log line.\<close>

lemma tidy_fetch:
  "tidy (if action = ''publish'' then [''documents.findOne''] else [])
     (fetch_sync_data env action uid d result)"
  by (cases "h_findOne env uid d")
     (simp_all add: fetch_sync_data_def tidy_def catch_def call_def ret_def is_failure_def)

lemma tidy_replica_body: "tidy ex (replica_body env action uid d operation sd loc)"
  unfolding replica_body_def
  by (auto intro!: tidy_bind tidy_call tidy_ret tidy_log split: option.splits)

lemma tidy_replica: "tidy ex (replica_branch env action uid d operation sd loc result)"
  unfolding replica_branch_def
  by (auto intro!: tidy_bind tidy_log tidy_ret tidy_catch_log tidy_replica_body)

lemma tidy_file_records: "tidy ex (file_records env sd)"
  unfolding file_records_def
  by (auto intro!: tidy_bind tidy_call tidy_ret tidy_log)

lemma tidy_master_body: "tidy ex (master_body env uid d operation sd loc)"
  unfolding master_body_def Let_def
  by (auto intro!: tidy_bind tidy_call tidy_ret tidy_log tidy_catch_log_ret
      tidy_file_records)

lemma tidy_master: "tidy ex (master_branch env uid d operation sd loc result)"
  unfolding master_branch_def
  by (auto intro!: tidy_bind tidy_log tidy_ret tidy_catch_log tidy_master_body)

lemma tidy_sync_logic:
  "tidy (if ctx_action ctx = ''publish'' then [''documents.findOne''] else [])
     (sync_logic env ctx result)"
proof -
  define ex where "ex = (if ctx_action ctx = ''publish'' then [''documents.findOne''] else [])"
  have fetch: "tidy ex (fetch_sync_data env action uid d result)"
    if "action = ctx_action ctx" for action uid d
    unfolding ex_def that[symmetric] by (rule tidy_fetch)
  have "tidy ex (sync_logic env ctx result)"
    unfolding sync_logic_def Let_def
    by (auto split: option.splits sync_mode.splits
        intro!: tidy_ret tidy_bind tidy_log fetch tidy_replica tidy_master)
  then show ?thesis by (simp add: ex_def)
qed

lemma tidy_middleware:
  "tidy (if ctx_action ctx = ''publish'' then [''documents.findOne''] else [])
     (middleware env ctx (Inr result))"
proof -
  define ex where "ex = (if ctx_action ctx = ''publish'' then [''documents.findOne''] else [])"
  have 1: "tidy ex ((Inr result, []) :: json comp)"
    by (simp add: tidy_def)
  have 2: "tidy ex (sync_logic env ctx result)"
    unfolding ex_def by (rule tidy_sync_logic)
  have "tidy ex (middleware env ctx (Inr result))"
    unfolding middleware_def
    by (auto split: option.splits simp: 1 intro!: tidy_bind tidy_catch_log_ret 2 tidy_ret)
  then show ?thesis by (simp add: ex_def)
qed

lemmas middleware_eval =
  middleware_def sync_logic_def replica_branch_def replica_body_def master_branch_def
  master_body_def file_records_def fetch_sync_data_def resolve_documentId_def
  string_prop_def nonempty_string_def get_prop_def is_array_def is_bulk_result_def
  operation_of_def locale_of_def locale_suffix_def or_else_def safe_data_def
  queue_entry_def ship_message_def master_entry_def trackedActions_def starts_with_def
  bind_def catch_def ret_def call_def log_ev_def message_of_def Let_def
  SENSITIVE_FIELDS_def order_eval assign_eval

text \<open>
  C1, as the claim states it, fails in its second half: not every exception of the sync
  logic is logged. For a publish whose result has fewer than three keys the middleware
  fetches the full document, and the \<^verbatim>\<open>catch\<close> around that fetch is empty. Here the fetch
  throws; the operation's result is returned and the rest of the sync logic runs, but no
  log line at debug or error level is written at all.
\<close>

theorem middleware_drops_fetch_failure:
  "middleware ex_publish_env ex_publish_ctx (Inr ex_result)
     = (Inr ex_result,
        [Call ''documents.findOne'' [JStr ''api::article.article'', JStr ''doc1''] True,
         Call ''version-manager.incrementVersion''
           [JStr ''api::article.article'', JStr ''doc1'', JStr ''ship-1''] False,
         Call ''sync-queue.enqueue''
           [JObj [(''shipId'', JStr ''ship-1''), (''contentType'', JStr ''api::article.article''),
                  (''contentId'', JStr ''doc1''), (''operation'', JStr ''update''),
                  (''localVersion'', JNum 2), (''data'', ex_result), (''locale'', JNull)]]
           False,
         LogEv Info ''[Sync] Queued update for api::article.article (doc1)'',
         Call ''offlineSyncPush'' [] False])
   \<and> filter reports_failure (snd (middleware ex_publish_env ex_publish_ctx (Inr ex_result))) = []
   \<and> \<not> failures_logged [] (snd (middleware ex_publish_env ex_publish_ctx (Inr ex_result)))"
  by (simp add: ex_publish_env_def ex_publish_ctx_def ex_env_def ex_ctx_def ex_result_def
      middleware_eval reports_failure_def is_failure_def)

text \<open>
  C1, amended. Whatever the services of the sync logic do (return or throw, an \<^verbatim>\<open>Error\<close>,
  \<^verbatim>\<open>null\<close> or \<^verbatim>\<open>undefined\<close>), when the CMS operation succeeds the middleware returns that
  operation's result and does not throw. Every call of the sync logic that threw (version
  bump, enqueue, push, audit entry, file-record extraction, connection check, publish,
  broadcast queue) is caught and logged at once: the very next event is a log line at
  debug or error level. The one exception is the fetch of the full document, which only a
  publish makes: its failure is caught and dropped without a log line.
\<close>

theorem middleware_returns_result:
  "fst (middleware env ctx (Inr result)) = Inr result
   \<and> failures_logged (if ctx_action ctx = ''publish'' then [''documents.findOne''] else [])
        (snd (middleware env ctx (Inr result)))"
  using middleware_result[of env ctx result] tidy_middleware[of ctx env result]
  by (simp add: tidy_def)

theorem middleware_returns_result_witness:
  "middleware ex_env ex_ctx (Inr ex_result)
     = (Inr ex_result,
        [Call ''version-manager.incrementVersion''
           [JStr ''api::article.article'', JStr ''doc1'', JStr ''ship-1''] False,
         Call ''sync-queue.enqueue''
           [queue_entry ex_env ''api::article.article'' ''doc1'' ''update'' 2 ex_result JNull]
           True,
         LogEv Err ''[Sync] Queue error for update api::article.article: queue table locked''])
   \<and> failures_logged [] (snd (middleware ex_env ex_ctx (Inr ex_result)))
   \<and> fst (middleware (ex_env\<lparr>h_mode := Master\<rparr>) ex_ctx (Inr ex_result)) = Inr ex_result
   \<and> drop 3 (snd (middleware (ex_env\<lparr>h_mode := Master\<rparr>) ex_ctx (Inr ex_result)))
       = [Call ''kafka-producer.sendToShips''
            [ship_message ex_env ''api::article.article'' ''doc1'' ''update'' ex_result JNull []]
            True,
          LogEv Debug
            ''[Sync] Sync processing error (non-blocking): Cannot read properties of null (reading 'message')'']
   \<and> take 3 (snd (middleware
                    (ex_env\<lparr>h_mode := Master, h_isEnabled := Inl (Error ''no media config'')\<rparr>)
                    ex_ctx (Inr ex_result)))
       = [Call ''master-sync-queue.logEdit''
            [JObj [(''contentType'', JStr ''api::article.article''),
                   (''documentId'', JStr ''doc1''), (''operation'', JStr ''update''),
                   (''editedBy'', JStr ''master-admin''), (''locale'', JNull)]] False,
          Call ''media-sync.isEnabled'' [] True,
          LogEv Debug ''[Sync] File record extraction skipped: no media config'']
   \<and> ctx_action ex_publish_ctx = ''publish''
   \<and> failures_logged [''documents.findOne'']
        (snd (middleware ex_publish_env ex_publish_ctx (Inr ex_result)))"
  using middleware_returns_result [of ex_env ex_ctx ex_result]
        middleware_returns_result [of "ex_env\<lparr>h_mode := Master\<rparr>" ex_ctx ex_result]
        middleware_returns_result
          [of "ex_env\<lparr>h_mode := Master, h_isEnabled := Inl (Error ''no media config'')\<rparr>"
              ex_ctx ex_result]
        middleware_returns_result [of ex_publish_env ex_publish_ctx ex_result]
  by (simp add: ex_publish_env_def ex_publish_ctx_def ex_env_def ex_ctx_def ex_result_def
      middleware_eval)

subsection \<open>Changes that came from the peer are not propagated back\<close>

lemma quiet_ret: "quiet (ret x)"
  by (simp add: quiet_def ret_def)

lemma quiet_log: "quiet (log_ev l s)"
  by (simp add: quiet_def log_ev_def propagating_def)

lemma quiet_message_of: "quiet (message_of e)"
  by (simp add: quiet_def message_of_def ret_def split: thrown.splits)

lemma quiet_bind: "quiet m \<Longrightarrow> (\<And>x. quiet (f x)) \<Longrightarrow> quiet (bind m f)"
  by (auto simp: quiet_def bind_def split: sum.splits)

lemma quiet_catch: "quiet m \<Longrightarrow> (\<And>e. quiet (h e)) \<Longrightarrow> quiet (catch m h)"
  by (auto simp: quiet_def catch_def split: sum.splits)

lemma quiet_findOne: "quiet (call ''documents.findOne'' args outcome)"
  by (simp add: quiet_def call_def propagating_def)

lemma quiet_fetch: "quiet (fetch_sync_data env action uid d result)"
  unfolding fetch_sync_data_def
  by (simp add: quiet_catch quiet_ret quiet_findOne)

lemma quiet_replica:
  "h_fromMaster env \<Longrightarrow> quiet (replica_branch env action uid d operation sd loc result)"
  unfolding replica_branch_def
  by (simp only: if_True) (intro quiet_bind quiet_log quiet_ret)

lemma quiet_master:
  "h_fromShip env \<Longrightarrow> quiet (master_branch env uid d operation sd loc result)"
  unfolding master_branch_def
  by (simp only: if_True) (intro quiet_bind quiet_log quiet_ret)

lemma quiet_sync_logic:
  assumes "h_mode env = Replica \<and> h_fromMaster env \<or> h_mode env = Master \<and> h_fromShip env"
  shows "quiet (sync_logic env ctx result)"
  unfolding sync_logic_def Let_def using assms
  by (auto split: option.splits sync_mode.splits
      intro!: quiet_ret quiet_bind quiet_log quiet_fetch quiet_replica quiet_master)

lemma quiet_middleware:
  assumes "h_mode env = Replica \<and> h_fromMaster env \<or> h_mode env = Master \<and> h_fromShip env"
  shows "quiet (middleware env ctx nxt)"
proof -
  have 1: "quiet ((r, []) :: json comp)" for r by (simp add: quiet_def)
  show ?thesis
    unfolding middleware_def
    by (auto split: sum.splits option.splits simp: 1
        intro!: quiet_bind quiet_catch quiet_sync_logic[OF assms] quiet_message_of quiet_log
          quiet_ret)
qed

text \<open>
  C6. While \<^verbatim>\<open>_offlineSyncFromMaster\<close> is set on a replica, a run of the middleware makes no
  version bump, creates no outbound queue entry and triggers no push; while
  \<^verbatim>\<open>_offlineSyncFromShip\<close> is set on the master, a run writes no audit entry, publishes
  nothing and queues nothing for broadcast. This holds for every operation and every
  outcome of the CMS call.
\<close>

theorem loop_flags_suppress_propagation:
  "(h_mode env = Replica \<and> h_fromMaster env \<longrightarrow>
      filter propagating (snd (middleware env ctx nxt)) = [])
   \<and> (h_mode env = Master \<and> h_fromShip env \<longrightarrow>
      filter propagating (snd (middleware env ctx nxt)) = [])"
  using quiet_middleware[of env ctx nxt] by (simp add: quiet_def)

theorem loop_flags_suppress_propagation_witness:
  "h_mode (ex_env\<lparr>h_fromMaster := True\<rparr>) = Replica \<and> h_fromMaster (ex_env\<lparr>h_fromMaster := True\<rparr>)
   \<and> middleware (ex_env\<lparr>h_fromMaster := True\<rparr>) ex_ctx (Inr ex_result)
       = (Inr ex_result,
          [LogEv Debug
             ''[Sync] Skipping queue for api::article.article (doc1) - originated from master''])
   \<and> h_mode (ex_env\<lparr>h_mode := Master, h_fromShip := True\<rparr>) = Master
   \<and> h_fromShip (ex_env\<lparr>h_mode := Master, h_fromShip := True\<rparr>)
   \<and> middleware (ex_env\<lparr>h_mode := Master, h_fromShip := True\<rparr>) ex_ctx (Inr ex_result)
       = (Inr ex_result,
          [LogEv Debug
             ''[Sync] Skipping broadcast for api::article.article (doc1) - originated from ship''])
   \<and> filter propagating (snd (middleware ex_env ex_ctx (Inr ex_result)))
       = [Call ''version-manager.incrementVersion''
            [JStr ''api::article.article'', JStr ''doc1'', JStr ''ship-1''] False,
          Call ''sync-queue.enqueue''
            [queue_entry ex_env ''api::article.article'' ''doc1'' ''update'' 2 ex_result JNull]
            True]"
  using loop_flags_suppress_propagation [of "ex_env\<lparr>h_fromMaster := True\<rparr>" ex_ctx "Inr ex_result"]
        loop_flags_suppress_propagation
          [of "ex_env\<lparr>h_mode := Master, h_fromShip := True\<rparr>" ex_ctx "Inr ex_result"]
  by (simp add: ex_env_def ex_ctx_def ex_result_def middleware_eval propagating_def
      SENSITIVE_FIELDS_def)

end
